theory Spec2Isabelle
  imports Complex_Main "HOL-Library.AList"
begin

section \<open>Conventions of the embedding\<close>

text \<open>
  The trading platform is written in Python. Its \<^verbatim>\<open>float\<close> values are modelled as
  \<^typ>\<open>real\<close> (rounding is not modelled), its \<^verbatim>\<open>int\<close> values as \<^typ>\<open>int\<close>, a
  \<^verbatim>\<open>datetime\<close> as a natural number of ticks, and a \<^verbatim>\<open>Dict[str, float]\<close> of prices
  as a map. The position book is a Python \<^verbatim>\<open>dict\<close>, which keeps insertion order: it is
  an association list, read with \<^const>\<open>map_of\<close>, written with \<^const>\<open>AList.update\<close>
  (in place for a present key, at the end for a new one) and \<^const>\<open>AList.delete\<close>.

  A Python \<^verbatim>\<open>float\<close> division by zero raises \<^verbatim>\<open>ZeroDivisionError\<close>. An exception
  does not roll back what the method has already written, so a method that mutates the
  engine returns the engine as it is when the method leaves, together with the exception
  if there is one.

  Two records of the source share field names (\<^verbatim>\<open>symbol\<close>, \<^verbatim>\<open>quantity\<close>, ...), so
  each field carries a prefix for its class: \<open>o_\<close> for \<^verbatim>\<open>Order\<close>, \<open>p_\<close> for
  \<^verbatim>\<open>Position\<close>, \<open>cp_\<close> for \<^verbatim>\<open>ClosedPosition\<close>.
\<close>

type_synonym datetime = nat

datatype py_error =
  ZeroDivisionError | TypeError | IndexError | ValueError | AttributeError

section \<open>Orders (\<^verbatim>\<open>engine/order.py\<close>)\<close>

datatype OrderType = MARKET | LIMIT

datatype OrderSide = BUY | SELL

datatype OrderStatus = PENDING | FILLED | CANCELLED | REJECTED

text \<open>
  The dataclass \<^verbatim>\<open>Order\<close>. The identifier that \<^verbatim>\<open>__post_init__\<close> derives from the
  timestamp is kept as an opaque optional string.
\<close>

record Order =
  o_symbol :: string
  o_side :: OrderSide
  o_quantity :: int
  o_order_type :: OrderType
  o_timestamp :: datetime
  o_limit_price :: "real option"
  o_status :: OrderStatus
  o_fill_price :: "real option"
  o_fill_timestamp :: "datetime option"
  o_order_id :: "string option"

definition fill :: "Order \<Rightarrow> real \<Rightarrow> datetime \<Rightarrow> Order" where
  "fill order price timestamp =
     order\<lparr>o_fill_price := Some price, o_fill_timestamp := Some timestamp, o_status := FILLED\<rparr>"

definition cancel :: "Order \<Rightarrow> Order" where
  "cancel order = order\<lparr>o_status := CANCELLED\<rparr>"

definition reject :: "Order \<Rightarrow> Order" where
  "reject order = order\<lparr>o_status := REJECTED\<rparr>"

section \<open>Positions (\<^verbatim>\<open>engine/position.py\<close>)\<close>

text \<open>
  The entry timestamp of a position is whatever the order's \<^verbatim>\<open>fill_timestamp\<close> holds,
  an \<^verbatim>\<open>Optional[datetime]\<close> that the engine passes on unchecked.
\<close>

record Position =
  p_symbol :: string
  p_quantity :: int
  p_entry_price :: real
  p_entry_timestamp :: "datetime option"
  p_leverage :: real

record ClosedPosition =
  cp_symbol :: string
  cp_quantity :: int
  cp_entry_price :: real
  cp_exit_price :: real
  cp_entry_timestamp :: "datetime option"
  cp_exit_timestamp :: "datetime option"
  cp_realized_pnl :: real
  cp_realized_pnl_pct :: real
  cp_leverage :: real

definition calculate_unrealized_pnl :: "Position \<Rightarrow> real \<Rightarrow> real" where
  "calculate_unrealized_pnl pos current_price =
     (let price_diff = current_price - p_entry_price pos
      in price_diff * real_of_int (p_quantity pos))"

definition calculate_unrealized_pnl_percentage :: "Position \<Rightarrow> real \<Rightarrow> real" where
  "calculate_unrealized_pnl_percentage pos current_price =
     (if p_entry_price pos = 0 then 0
      else
        let price_diff = current_price - p_entry_price pos;
            pnl_pct = (price_diff / p_entry_price pos) * 100;
            pnl_pct = (if p_quantity pos < 0 then - pnl_pct else pnl_pct)
        in pnl_pct * p_leverage pos)"

definition get_position_value :: "Position \<Rightarrow> real \<Rightarrow> real" where
  "get_position_value pos current_price = real_of_int \<bar>p_quantity pos\<bar> * current_price"

definition get_margin_required :: "Position \<Rightarrow> real \<Rightarrow> py_error + real" where
  "get_margin_required pos current_price =
     (let position_value = get_position_value pos current_price
      in if p_leverage pos = 0 then Inl ZeroDivisionError
         else Inr (position_value / p_leverage pos))"

definition is_long :: "Position \<Rightarrow> bool" where
  "is_long pos \<longleftrightarrow> p_quantity pos > 0"

definition is_short :: "Position \<Rightarrow> bool" where
  "is_short pos \<longleftrightarrow> p_quantity pos < 0"

definition close :: "Position \<Rightarrow> real \<Rightarrow> datetime option \<Rightarrow> ClosedPosition" where
  "close pos exit_price exit_timestamp =
     (let realized_pnl = calculate_unrealized_pnl pos exit_price;
          realized_pnl_pct = calculate_unrealized_pnl_percentage pos exit_price
      in \<lparr>cp_symbol = p_symbol pos,
          cp_quantity = p_quantity pos,
          cp_entry_price = p_entry_price pos,
          cp_exit_price = exit_price,
          cp_entry_timestamp = p_entry_timestamp pos,
          cp_exit_timestamp = exit_timestamp,
          cp_realized_pnl = realized_pnl,
          cp_realized_pnl_pct = realized_pnl_pct,
          cp_leverage = p_leverage pos\<rparr>)"

definition is_profitable :: "ClosedPosition \<Rightarrow> bool" where
  "is_profitable c \<longleftrightarrow> cp_realized_pnl c > 0"

section \<open>The execution engine (\<^verbatim>\<open>engine/execution_engine.py\<close>)\<close>

record ExecutionEngine =
  initial_capital :: real
  cash :: real
  max_leverage :: real
  slippage_pct :: real
  commission_pct :: real
  positions :: "(string \<times> Position) list"
  closed_positions :: "ClosedPosition list"
  pending_orders :: "Order list"
  filled_orders :: "Order list"
  all_orders :: "Order list"

text \<open>The constructor \<^verbatim>\<open>__init__\<close>.\<close>

definition init_engine :: "real \<Rightarrow> real \<Rightarrow> real \<Rightarrow> real \<Rightarrow> ExecutionEngine" where
  "init_engine capital leverage slippage commission =
     \<lparr>initial_capital = capital,
      cash = capital,
      max_leverage = leverage,
      slippage_pct = slippage,
      commission_pct = commission,
      positions = [],
      closed_positions = [],
      pending_orders = [],
      filled_orders = [],
      all_orders = []\<rparr>"

definition get_current_position :: "ExecutionEngine \<Rightarrow> string \<Rightarrow> Position option" where
  "get_current_position e symbol = map_of (positions e) symbol"

definition get_position_quantity :: "ExecutionEngine \<Rightarrow> string \<Rightarrow> int" where
  "get_position_quantity e symbol =
     (case map_of (positions e) symbol of Some pos \<Rightarrow> p_quantity pos | None \<Rightarrow> 0)"

text \<open>
  \<^verbatim>\<open>current_prices.get(symbol, position.entry_price)\<close>: the price of the symbol, or the
  position's own entry price when the mapping has none.
\<close>

definition price_or_entry :: "(string \<rightharpoonup> real) \<Rightarrow> string \<Rightarrow> Position \<Rightarrow> real" where
  "price_or_entry current_prices symbol position =
     (case current_prices symbol of Some c \<Rightarrow> c | None \<Rightarrow> p_entry_price position)"

text \<open>The loop of \<^verbatim>\<open>calculate_available_capital\<close> that adds up the margin in use.\<close>

fun margin_used_loop ::
  "(string \<rightharpoonup> real) \<Rightarrow> (string \<times> Position) list \<Rightarrow> real \<Rightarrow> py_error + real" where
  "margin_used_loop current_prices [] margin_used = Inr margin_used"
| "margin_used_loop current_prices ((symbol, position) # rest) margin_used =
     (let current_price = price_or_entry current_prices symbol position
      in case get_margin_required position current_price of
           Inl err \<Rightarrow> Inl err
         | Inr m \<Rightarrow> margin_used_loop current_prices rest (margin_used + m))"

definition calculate_available_capital ::
  "ExecutionEngine \<Rightarrow> (string \<rightharpoonup> real) \<Rightarrow> py_error + real" where
  "calculate_available_capital e current_prices =
     (case margin_used_loop current_prices (positions e) 0 of
        Inl err \<Rightarrow> Inl err
      | Inr margin_used \<Rightarrow>
          (let max_buying_power = cash e * max_leverage e;
               available = max_buying_power - margin_used
           in Inr (max available 0)))"

definition apply_slippage :: "ExecutionEngine \<Rightarrow> real \<Rightarrow> OrderSide \<Rightarrow> real" where
  "apply_slippage e price side =
     (if side = BUY then price * (1 + slippage_pct e) else price * (1 - slippage_pct e))"

definition calculate_commission :: "ExecutionEngine \<Rightarrow> int \<Rightarrow> real \<Rightarrow> real" where
  "calculate_commission e quantity price =
     (let trade_value = real_of_int \<bar>quantity\<bar> * price in trade_value * commission_pct e)"

definition submit_order :: "ExecutionEngine \<Rightarrow> Order \<Rightarrow> bool \<times> ExecutionEngine" where
  "submit_order e order =
     (True, e\<lparr>all_orders := all_orders e @ [order],
              pending_orders := pending_orders e @ [order]\<rparr>)"

text \<open>
  \<^verbatim>\<open>_update_position_from_order\<close>. It reads the order's fill price; the engine calls it
  on a filled order only, and on an order with no fill price Python raises
  \<^verbatim>\<open>TypeError\<close> at the first arithmetic on \<^verbatim>\<open>None\<close>. The divisions are by
  \<^verbatim>\<open>self.max_leverage\<close> and, when adding to a position, by the total quantity; each
  raises on zero after the writes that precede it in the source.
\<close>

definition update_position_from_order ::
  "ExecutionEngine \<Rightarrow> Order \<Rightarrow> real \<Rightarrow> py_error option \<times> ExecutionEngine" where
  "update_position_from_order e order commission =
     (case o_fill_price order of
        None \<Rightarrow> (Some TypeError, e)
      | Some fp \<Rightarrow>
     (let symbol = o_symbol order;
          quantity = (if o_side order = BUY then o_quantity order else - o_quantity order)
      in case map_of (positions e) symbol of
        None \<Rightarrow>
          (let e1 = e\<lparr>positions := AList.update symbol
                        \<lparr>p_symbol = symbol, p_quantity = quantity, p_entry_price = fp,
                         p_entry_timestamp = o_fill_timestamp order,
                         p_leverage = max_leverage e\<rparr> (positions e)\<rparr>;
               cost = real_of_int \<bar>quantity\<bar> * fp + commission
           in if max_leverage e = 0 then (Some ZeroDivisionError, e1)
              else if o_side order = BUY
                then (None, e1\<lparr>cash := cash e1 - cost / max_leverage e\<rparr>)
                else (None, e1\<lparr>cash := cash e1
                        + (real_of_int \<bar>quantity\<bar> * fp - commission) / max_leverage e\<rparr>))
      | Some current_pos \<Rightarrow>
          (let new_quantity = p_quantity current_pos + quantity
           in if (p_quantity current_pos > 0 \<and> quantity < 0)
                 \<or> (p_quantity current_pos < 0 \<and> quantity > 0)
              then
                (if \<bar>quantity\<bar> \<ge> \<bar>p_quantity current_pos\<bar>
                 then
                   (let closed = close current_pos fp (o_fill_timestamp order);
                        e1 = e\<lparr>closed_positions := closed_positions e @ [closed]\<rparr>;
                        e2 = e1\<lparr>cash := cash e1 + (cp_realized_pnl closed - commission)\<rparr>;
                        e3 = e2\<lparr>positions := AList.delete symbol (positions e2)\<rparr>
                    in if \<bar>quantity\<bar> > \<bar>p_quantity current_pos\<bar>
                       then
                         (let remaining_qty = new_quantity;
                              e4 = e3\<lparr>positions := AList.update symbol
                                     \<lparr>p_symbol = symbol, p_quantity = remaining_qty,
                                      p_entry_price = fp,
                                      p_entry_timestamp = o_fill_timestamp order,
                                      p_leverage = max_leverage e\<rparr> (positions e3)\<rparr>
                          in if max_leverage e = 0 then (Some ZeroDivisionError, e4)
                             else (None, e4\<lparr>cash := cash e4
                                     - (real_of_int \<bar>remaining_qty\<bar> * fp) / max_leverage e\<rparr>))
                       else (None, e3))
                 else
                   (let partial_pnl = (fp - p_entry_price current_pos) * real_of_int \<bar>quantity\<bar>;
                        partial_pnl = (if p_quantity current_pos < 0 then - partial_pnl
                                       else partial_pnl);
                        e1 = e\<lparr>cash := cash e + (partial_pnl - commission)\<rparr>
                    in (None, e1\<lparr>positions := AList.update symbol
                                  (current_pos\<lparr>p_quantity := new_quantity\<rparr>) (positions e1)\<rparr>)))
              else
                (let old_cost = real_of_int \<bar>p_quantity current_pos\<bar> * p_entry_price current_pos;
                     new_cost = real_of_int \<bar>quantity\<bar> * fp;
                     total_quantity = \<bar>p_quantity current_pos\<bar> + \<bar>quantity\<bar>
                 in if total_quantity = 0 then (Some ZeroDivisionError, e)
                    else
                      (let e1 = e\<lparr>positions := AList.update symbol
                                  (current_pos\<lparr>p_entry_price :=
                                                 (old_cost + new_cost) / real_of_int total_quantity,
                                               p_quantity := new_quantity\<rparr>) (positions e)\<rparr>
                       in if max_leverage e = 0 then (Some ZeroDivisionError, e1)
                          else (None, e1\<lparr>cash := cash e1
                                  - (real_of_int \<bar>quantity\<bar> * fp + commission)
                                      / max_leverage e\<rparr>))))))"

text \<open>
  \<^verbatim>\<open>execute_market_order\<close>. The result is what the call leaves behind: the value it
  returns or the exception it raises, the order (mutated in place by \<^verbatim>\<open>fill\<close> or
  \<^verbatim>\<open>reject\<close>) and the engine. The order passed in is taken not to be one of the
  objects of \<^verbatim>\<open>pending_orders\<close> (nothing in the repository calls
  \<^verbatim>\<open>submit_order\<close>), so the membership test compares by value, as the dataclass
  equality does.
\<close>

definition execute_market_order ::
  "ExecutionEngine \<Rightarrow> Order \<Rightarrow> real \<Rightarrow> (string \<rightharpoonup> real) \<Rightarrow> datetime
     \<Rightarrow> (py_error + bool) \<times> Order \<times> ExecutionEngine" where
  "execute_market_order e order current_price current_prices timestamp =
     (let execution_price = apply_slippage e current_price (o_side order);
          trade_value = real_of_int \<bar>o_quantity order\<bar> * execution_price;
          commission = calculate_commission e (o_quantity order) execution_price;
          total_cost = trade_value + commission;
          admitted =
            (if o_side order = BUY
             then (if max_leverage e = 0 then Inl ZeroDivisionError
                   else (let required_margin = total_cost / max_leverage e
                         in case calculate_available_capital e current_prices of
                              Inl err \<Rightarrow> Inl err
                            | Inr available \<Rightarrow> Inr (\<not> required_margin > available)))
             else Inr True)
      in case admitted of
           Inl err \<Rightarrow> (Inl err, order, e)
         | Inr False \<Rightarrow> (Inr False, reject order, e)
         | Inr True \<Rightarrow>
             (let order' = fill order execution_price timestamp;
                  e1 = e\<lparr>filled_orders := filled_orders e @ [order']\<rparr>;
                  e2 = (if order' \<in> set (pending_orders e1)
                        then e1\<lparr>pending_orders := remove1 order' (pending_orders e1)\<rparr>
                        else e1);
                  (raised, e3) = update_position_from_order e2 order' commission
              in case raised of
                   Some err \<Rightarrow> (Inl err, order', e3)
                 | None \<Rightarrow> (Inr True, order', e3)))"

text \<open>
  The loop shared, word for word, by \<^verbatim>\<open>get_total_portfolio_value\<close> and
  \<^verbatim>\<open>get_total_unrealized_pnl\<close>: it adds each position's unrealized P&L to a running
  total.
\<close>

fun unrealized_loop ::
  "(string \<rightharpoonup> real) \<Rightarrow> (string \<times> Position) list \<Rightarrow> real \<Rightarrow> real" where
  "unrealized_loop current_prices [] total_unrealized = total_unrealized"
| "unrealized_loop current_prices ((symbol, position) # rest) total_unrealized =
     (let current_price = price_or_entry current_prices symbol position
      in unrealized_loop current_prices rest
           (total_unrealized + calculate_unrealized_pnl position current_price))"

definition get_total_portfolio_value :: "ExecutionEngine \<Rightarrow> (string \<rightharpoonup> real) \<Rightarrow> real" where
  "get_total_portfolio_value e current_prices =
     (let total_unrealized = unrealized_loop current_prices (positions e) 0
      in cash e + total_unrealized)"

definition get_total_realized_pnl :: "ExecutionEngine \<Rightarrow> real" where
  "get_total_realized_pnl e = sum_list (map cp_realized_pnl (closed_positions e))"

definition get_total_unrealized_pnl :: "ExecutionEngine \<Rightarrow> (string \<rightharpoonup> real) \<Rightarrow> real" where
  "get_total_unrealized_pnl e current_prices = unrealized_loop current_prices (positions e) 0"

section \<open>Fixtures of the concrete scenarios\<close>

text \<open>A fresh market order, as the driver builds it: pending, with no fill yet.\<close>

definition market_order :: "string \<Rightarrow> OrderSide \<Rightarrow> int \<Rightarrow> datetime \<Rightarrow> Order" where
  "market_order symbol side quantity timestamp =
     \<lparr>o_symbol = symbol, o_side = side, o_quantity = quantity, o_order_type = MARKET,
      o_timestamp = timestamp, o_limit_price = None, o_status = PENDING,
      o_fill_price = None, o_fill_timestamp = None, o_order_id = None\<rparr>"

text \<open>
  The engine of the round-trip scenario (capital 10,000, leverage 1, no slippage, no
  commission) after the BUY of 10 units at 100, and after the SELL of 10 units at 110
  that follows it.
\<close>

definition scenario_after_buy :: ExecutionEngine where
  "scenario_after_buy =
     snd (snd (execute_market_order (init_engine 10000 1 0 0)
                 (market_order ''X'' BUY 10 0) 100 [''X'' \<mapsto> 100] 0))"

definition scenario_after_sell :: ExecutionEngine where
  "scenario_after_sell =
     snd (snd (execute_market_order scenario_after_buy
                 (market_order ''X'' SELL 10 1) 110 [''X'' \<mapsto> 110] 1))"

text \<open>The long position of 10 units at 100 that the BUY of the scenario opens.\<close>

definition long_10_at_100 :: Position where
  "long_10_at_100 =
     \<lparr>p_symbol = ''X'', p_quantity = 10, p_entry_price = 100,
      p_entry_timestamp = Some 0, p_leverage = 1\<rparr>"

section \<open>Vocabulary of the position lifecycle\<close>

text \<open>
  The local \<^verbatim>\<open>quantity\<close> of \<^verbatim>\<open>_update_position_from_order\<close>: the order's quantity,
  positive for a BUY and negative for a SELL.
\<close>

definition signed_quantity :: "Order \<Rightarrow> int" where
  "signed_quantity order =
     (if o_side order = BUY then o_quantity order else - o_quantity order)"

text \<open>
  The test that sends \<^verbatim>\<open>_update_position_from_order\<close> into its "closing or reversing"
  branch: the fill is on the side opposite to the position.
\<close>

definition reduces_position :: "Position \<Rightarrow> Order \<Rightarrow> bool" where
  "reduces_position pos order =
     ((p_quantity pos > 0 \<and> signed_quantity order < 0)
      \<or> (p_quantity pos < 0 \<and> signed_quantity order > 0))"

section \<open>The risk tracker (\<^verbatim>\<open>portfolio/risk_tracker.py\<close>)\<close>

text \<open>
  The tracker keeps a reference to the engine; here the engine is an argument of each
  method that reads it. The equity history is a list of (timestamp, equity) pairs.
\<close>

record RiskTracker =
  peak_equity :: real
  equity_history :: "(datetime \<times> real) list"

definition init_risk_tracker :: "ExecutionEngine \<Rightarrow> RiskTracker" where
  "init_risk_tracker e = \<lparr>peak_equity = initial_capital e, equity_history = []\<rparr>"

definition update_equity_history ::
  "RiskTracker \<Rightarrow> ExecutionEngine \<Rightarrow> datetime \<Rightarrow> (string \<rightharpoonup> real) \<Rightarrow> RiskTracker" where
  "update_equity_history tr e timestamp current_prices =
     (let equity = get_total_portfolio_value e current_prices;
          tr1 = tr\<lparr>equity_history := equity_history tr @ [(timestamp, equity)]\<rparr>
      in if equity > peak_equity tr1 then tr1\<lparr>peak_equity := equity\<rparr> else tr1)"

text \<open>
  The loop of \<^verbatim>\<open>get_max_drawdown\<close>, with its three running variables: the largest
  drawdown in dollars so far, the percentage recorded with it, and the running peak.
\<close>

fun max_drawdown_loop ::
  "(datetime \<times> real) list \<Rightarrow> real \<Rightarrow> real \<Rightarrow> real \<Rightarrow> real \<times> real" where
  "max_drawdown_loop [] max_dd_dollars max_dd_pct peak = (max_dd_dollars, max_dd_pct)"
| "max_drawdown_loop ((timestamp, equity) # rest) max_dd_dollars max_dd_pct peak =
     (let peak = (if equity > peak then equity else peak);
          drawdown = peak - equity;
          drawdown_pct = (if peak > 0 then drawdown / peak * 100 else 0)
      in if drawdown > max_dd_dollars
         then max_drawdown_loop rest drawdown drawdown_pct peak
         else max_drawdown_loop rest max_dd_dollars max_dd_pct peak)"

definition get_max_drawdown :: "RiskTracker \<Rightarrow> ExecutionEngine \<Rightarrow> real \<times> real" where
  "get_max_drawdown tr e =
     (if equity_history tr = [] then (0, 0)
      else max_drawdown_loop (equity_history tr) 0 0 (initial_capital e))"

text \<open>A tracker with the equity samples 10,000, 9,000 and 9,500.\<close>

definition sample_tracker :: RiskTracker where
  "sample_tracker =
     \<lparr>peak_equity = 10000, equity_history = [(0, 10000), (1, 9000), (2, 9500)]\<rparr>"

section \<open>Bars, signals and the pandas operations the strategies use\<close>

text \<open>
  A strategy receives the bar history as a pandas DataFrame with the columns
  \<^verbatim>\<open>timestamp, open, high, low, close, volume\<close>: here a list of rows, oldest first.
  \<^verbatim>\<open>len(data)\<close> is the length of the list.
\<close>

record Bar =
  b_timestamp :: datetime
  b_open :: real
  b_high :: real
  b_low :: real
  b_close :: real
  b_volume :: real

datatype Signal = Signal_BUY | Signal_SELL | Signal_HOLD | Signal_CLOSE

text \<open>
  The dataclass \<^verbatim>\<open>TradeSignal\<close>. Its \<^verbatim>\<open>strength\<close>, a float scaled by numpy
  divisions whose results on a zero divisor (inf, nan) have no counterpart in the reals,
  is left out. A reason that the source builds with an f-string is kept as the template,
  its placeholders not filled in: numbers are not formatted.
\<close>

record TradeSignal =
  sig_signal :: Signal
  sig_symbol :: string
  sig_price :: real
  sig_timestamp :: datetime
  sig_reason :: string

text \<open>
  \<^verbatim>\<open>.iloc[-1]\<close> and \<^verbatim>\<open>.iloc[-2]\<close>: the last row and the one before it; pandas raises
  \<^verbatim>\<open>IndexError\<close> when the row does not exist.
\<close>

definition iloc_last :: "'a list \<Rightarrow> py_error + 'a" where
  "iloc_last xs = (if xs = [] then Inl IndexError else Inr (last xs))"

definition iloc_prev :: "'a list \<Rightarrow> py_error + 'a" where
  "iloc_prev xs = (if length xs < 2 then Inl IndexError else Inr (xs ! (length xs - 2)))"

text \<open>
  A pandas Series of floats: \<^term>\<open>None\<close> is NaN. A comparison with NaN is false.
\<close>

type_synonym series = "real option list"

definition np_less :: "real option \<Rightarrow> real option \<Rightarrow> bool" where
  "np_less a b = (case (a, b) of (Some x, Some y) \<Rightarrow> x < y | _ \<Rightarrow> False)"

definition np_less_eq :: "real option \<Rightarrow> real option \<Rightarrow> bool" where
  "np_less_eq a b = (case (a, b) of (Some x, Some y) \<Rightarrow> x \<le> y | _ \<Rightarrow> False)"

text \<open>
  \<^verbatim>\<open>Series.diff()\<close>: NaN first, then each value minus the one before.
  \<^verbatim>\<open>Series.rolling(window, min_periods=window).mean()\<close>: NaN until the window is
  full, then the mean of the last \<open>window\<close> values; a window of 0 is accepted and gives
  NaN throughout. \<^verbatim>\<open>Series.ewm(span, adjust=False, min_periods=span).mean()\<close>: the
  recursion \<open>y\<^sub>0 = x\<^sub>0\<close>, \<open>y\<^sub>t = (1 - \<alpha>) y\<^sub>t\<^sub>-\<^sub>1 + \<alpha> x\<^sub>t\<close> with
  \<open>\<alpha> = 2 / (span + 1)\<close>, NaN before \<open>span\<close> values were seen; pandas raises
  \<^verbatim>\<open>ValueError\<close> for a span below 1. The rolling and the ewm windows are only ever
  applied to series without NaN.
\<close>

definition series_diff :: "real list \<Rightarrow> series" where
  "series_diff xs =
     (case xs of
        [] \<Rightarrow> []
      | x # rest \<Rightarrow> None # map2 (\<lambda>a b. Some (b - a)) xs rest)"

definition rolling_mean :: "real list \<Rightarrow> nat \<Rightarrow> series" where
  "rolling_mean xs window =
     map (\<lambda>i. if window = 0 \<or> i + 1 < window then None
              else Some (sum_list (take window (drop (i + 1 - window) xs)) / real window))
         [0..<length xs]"

fun ewm_loop :: "real \<Rightarrow> real \<Rightarrow> real list \<Rightarrow> real list" where
  "ewm_loop alpha y [] = []"
| "ewm_loop alpha y (x # xs) =
     (let y' = (1 - alpha) * y + alpha * x in y' # ewm_loop alpha y' xs)"

definition ewm_mean :: "real list \<Rightarrow> nat \<Rightarrow> py_error + series" where
  "ewm_mean xs period =
     (if period < 1 then Inl ValueError
      else
        let alpha = 2 / (real period + 1);
            ys = (case xs of [] \<Rightarrow> [] | x # rest \<Rightarrow> x # ewm_loop alpha x rest)
        in Inr (map (\<lambda>i. if i + 1 < period then None else Some (ys ! i)) [0..<length ys]))"

text \<open>
  Indexing a Python list or numpy array (a negative index counts from the end), and
  \<^verbatim>\<open>np.max\<close>, \<^verbatim>\<open>np.min\<close>, which raise \<^verbatim>\<open>ValueError\<close> on an empty array.
\<close>

definition py_getitem :: "'a list \<Rightarrow> int \<Rightarrow> py_error + 'a" where
  "py_getitem xs i =
     (if 0 \<le> i \<and> i < int (length xs) then Inr (xs ! nat i)
      else if i < 0 \<and> - int (length xs) \<le> i then Inr (xs ! nat (int (length xs) + i))
      else Inl IndexError)"

fun np_max :: "real list \<Rightarrow> py_error + real" where
  "np_max [] = Inl ValueError"
| "np_max (x # xs) = Inr (fold max xs x)"

fun np_min :: "real list \<Rightarrow> py_error + real" where
  "np_min [] = Inl ValueError"
| "np_min (x # xs) = Inr (fold min xs x)"

text \<open>
  Every \<^verbatim>\<open>TradeSignal(...)\<close> of the strategies takes its price and timestamp from the
  last bar.
\<close>

definition signal_at :: "Signal \<Rightarrow> string \<Rightarrow> Bar \<Rightarrow> string \<Rightarrow> TradeSignal" where
  "signal_at sig symbol bar reason =
     \<lparr>sig_signal = sig, sig_symbol = symbol, sig_price = b_close bar,
      sig_timestamp = b_timestamp bar, sig_reason = reason\<rparr>"

section \<open>The strategies (\<^verbatim>\<open>strategies/*.py\<close>)\<close>

text \<open>
  Each strategy class is a record of its parameters; a lookback period is a natural
  number. Each \<^verbatim>\<open>generate_signal\<close> carries the name of its class as a prefix. The
  current position is \<^verbatim>\<open>Optional[int]\<close>.
\<close>

subsection \<open>\<^verbatim>\<open>RSIStrategy\<close>\<close>

text \<open>
  \<open>rsi_value\<close> is \<^verbatim>\<open>100 - (100 / (1 + rs))\<close> with \<^verbatim>\<open>rs = avg_gains / avg_losses\<close>
  in numpy arithmetic: 0/0 is NaN, and a positive gain over a zero loss is inf, for
  which the expression is 100.
\<close>

record RSIStrategy =
  rsi_period :: nat
  rsi_oversold :: real
  rsi_overbought :: real
  rsi_neutral :: real

definition rsi_value :: "real option \<Rightarrow> real option \<Rightarrow> real option" where
  "rsi_value avg_gain avg_loss =
     (case (avg_gain, avg_loss) of
        (Some g, Some l) \<Rightarrow>
          (if l = 0 then (if g = 0 then None else Some 100)
           else Some (100 - 100 / (1 + g / l)))
      | _ \<Rightarrow> None)"

definition calculate_rsi :: "real list \<Rightarrow> nat \<Rightarrow> series" where
  "calculate_rsi prices period =
     (let delta = series_diff prices;
          gains = map (\<lambda>d. case d of Some x \<Rightarrow> (if x > 0 then x else 0) | None \<Rightarrow> 0) delta;
          losses = map (\<lambda>d. - (case d of Some x \<Rightarrow> (if x < 0 then x else 0) | None \<Rightarrow> 0)) delta;
          avg_gains = rolling_mean gains period;
          avg_losses = rolling_mean losses period
      in map2 rsi_value avg_gains avg_losses)"

definition rsi_generate_signal ::
  "RSIStrategy \<Rightarrow> Bar list \<Rightarrow> string \<Rightarrow> int option \<Rightarrow> py_error + TradeSignal" where
  "rsi_generate_signal st data symbol current_position =
     (if length data < rsi_period st + 1
      then (case iloc_last data of
              Inl err \<Rightarrow> Inl err
            | Inr bar \<Rightarrow>
                Inr (signal_at Signal_HOLD symbol bar ''Insufficient data for RSI calculation''))
      else
        (let rsi = calculate_rsi (map b_close data) (rsi_period st)
         in case iloc_last rsi of
              Inl err \<Rightarrow> Inl err
            | Inr current_rsi \<Rightarrow>
         (case iloc_last data of
              Inl err \<Rightarrow> Inl err
            | Inr bar \<Rightarrow>
         (case current_rsi of
              None \<Rightarrow> Inr (signal_at Signal_HOLD symbol bar ''RSI calculation returned NaN'')
            | Some r \<Rightarrow>
                (let hold = signal_at Signal_HOLD symbol bar ''RSI neutral: {current_rsi:.2f}'';
                     entry =
                       (if r < rsi_oversold st
                        then signal_at Signal_BUY symbol bar
                               ''RSI oversold: {current_rsi:.2f} < {self.oversold}''
                        else if r > rsi_overbought st
                        then signal_at Signal_SELL symbol bar
                               ''RSI overbought: {current_rsi:.2f} > {self.overbought}''
                        else hold)
                 in case current_position of
                      None \<Rightarrow> Inr entry
                    | Some p \<Rightarrow>
                        if p = 0 then Inr entry
                        else if p > 0
                        then
                          (if r > rsi_neutral st \<or> r > rsi_overbought st
                           then Inr (signal_at Signal_CLOSE symbol bar
                                       ''RSI exit long: {current_rsi:.2f}'')
                           else Inr hold)
                        else if p < 0
                        then
                          (if r < rsi_neutral st \<or> r < rsi_oversold st
                           then Inr (signal_at Signal_CLOSE symbol bar
                                       ''RSI exit short: {current_rsi:.2f}'')
                           else Inr hold)
                        else Inr hold)))))"

subsection \<open>\<^verbatim>\<open>MACrossoverStrategy\<close>\<close>

record MACrossoverStrategy =
  ma_short_period :: nat
  ma_long_period :: nat

definition calculate_ma :: "real list \<Rightarrow> nat \<Rightarrow> series" where
  "calculate_ma prices period = rolling_mean prices period"

definition ma_generate_signal ::
  "MACrossoverStrategy \<Rightarrow> Bar list \<Rightarrow> string \<Rightarrow> int option \<Rightarrow> py_error + TradeSignal" where
  "ma_generate_signal st data symbol current_position =
     (if length data < ma_long_period st + 1
      then (case iloc_last data of
              Inl err \<Rightarrow> Inl err
            | Inr bar \<Rightarrow>
                Inr (signal_at Signal_HOLD symbol bar ''Insufficient data for MA calculation''))
      else
        (let short_ma = calculate_ma (map b_close data) (ma_short_period st);
             long_ma = calculate_ma (map b_close data) (ma_long_period st)
         in case iloc_last short_ma of Inl err \<Rightarrow> Inl err | Inr current_short \<Rightarrow>
           (case iloc_last long_ma of Inl err \<Rightarrow> Inl err | Inr current_long \<Rightarrow>
           (case iloc_prev short_ma of Inl err \<Rightarrow> Inl err | Inr prev_short \<Rightarrow>
           (case iloc_prev long_ma of Inl err \<Rightarrow> Inl err | Inr prev_long \<Rightarrow>
           (case iloc_last data of Inl err \<Rightarrow> Inl err | Inr bar \<Rightarrow>
             (if current_short = None \<or> current_long = None
              then Inr (signal_at Signal_HOLD symbol bar ''MA calculation returned NaN'')
              else
                (let golden_cross = (np_less_eq prev_short prev_long
                                     \<and> np_less current_long current_short);
                     death_cross = (np_less_eq prev_long prev_short
                                    \<and> np_less current_short current_long);
                     bullish_trend = np_less current_long current_short;
                     bearish_trend = np_less current_short current_long;
                     trend_desc = (if bullish_trend then ''bullish'' else ''bearish'');
                     hold = signal_at Signal_HOLD symbol bar
                              (''No crossover, trend: '' @ trend_desc);
                     entry =
                       (if golden_cross
                        then signal_at Signal_BUY symbol bar
                          ''Golden cross: MA{self.short_period} crossed above MA{self.long_period}''
                        else if death_cross
                        then signal_at Signal_SELL symbol bar
                          ''Death cross: MA{self.short_period} crossed below MA{self.long_period}''
                        else hold)
                 in case current_position of
                      None \<Rightarrow> Inr entry
                    | Some p \<Rightarrow>
                        if p = 0 then Inr entry
                        else if p > 0
                        then (if death_cross
                              then Inr (signal_at Signal_CLOSE symbol bar
                                          ''Exit long: Death cross detected'')
                              else Inr hold)
                        else if p < 0
                        then (if golden_cross
                              then Inr (signal_at Signal_CLOSE symbol bar
                                          ''Exit short: Golden cross detected'')
                              else Inr hold)
                        else Inr hold))))))))"

subsection \<open>\<^verbatim>\<open>EMAStrategy\<close>\<close>

record EMAStrategy =
  ema_short_period :: nat
  ema_long_period :: nat

definition calculate_ema :: "real list \<Rightarrow> nat \<Rightarrow> py_error + series" where
  "calculate_ema prices period = ewm_mean prices period"

definition ema_generate_signal ::
  "EMAStrategy \<Rightarrow> Bar list \<Rightarrow> string \<Rightarrow> int option \<Rightarrow> py_error + TradeSignal" where
  "ema_generate_signal st data symbol current_position =
     (if length data < ema_long_period st + 1
      then (case iloc_last data of
              Inl err \<Rightarrow> Inl err
            | Inr bar \<Rightarrow>
                Inr (signal_at Signal_HOLD symbol bar ''Insufficient data for EMA calculation''))
      else
        (case calculate_ema (map b_close data) (ema_short_period st) of
           Inl err \<Rightarrow> Inl err | Inr short_ema \<Rightarrow>
        (case calculate_ema (map b_close data) (ema_long_period st) of
           Inl err \<Rightarrow> Inl err | Inr long_ema \<Rightarrow>
        (case iloc_last short_ema of Inl err \<Rightarrow> Inl err | Inr current_short \<Rightarrow>
        (case iloc_last long_ema of Inl err \<Rightarrow> Inl err | Inr current_long \<Rightarrow>
        (case iloc_prev short_ema of Inl err \<Rightarrow> Inl err | Inr prev_short \<Rightarrow>
        (case iloc_prev long_ema of Inl err \<Rightarrow> Inl err | Inr prev_long \<Rightarrow>
        (case iloc_last data of Inl err \<Rightarrow> Inl err | Inr bar \<Rightarrow>
          (if current_short = None \<or> current_long = None
           then Inr (signal_at Signal_HOLD symbol bar ''EMA calculation returned NaN'')
           else
             (let bullish_crossover = (np_less_eq prev_short prev_long
                                       \<and> np_less current_long current_short);
                  bearish_crossover = (np_less_eq prev_long prev_short
                                       \<and> np_less current_short current_long);
                  bullish_trend = np_less current_long current_short;
                  bearish_trend = np_less current_short current_long;
                  trend_desc = (if bullish_trend then ''bullish'' else ''bearish'');
                  hold = signal_at Signal_HOLD symbol bar
                           (''No crossover, trend: '' @ trend_desc @ '' (sep: {separation:.4f})'');
                  entry =
                    (if bullish_crossover
                     then signal_at Signal_BUY symbol bar
                       ''Bullish EMA crossover: EMA{self.short_period} > EMA{self.long_period}''
                     else if bearish_crossover
                     then signal_at Signal_SELL symbol bar
                       ''Bearish EMA crossover: EMA{self.short_period} < EMA{self.long_period}''
                     else hold)
              in case current_position of
                   None \<Rightarrow> Inr entry
                 | Some p \<Rightarrow>
                     if p = 0 then Inr entry
                     else if p > 0
                     then (if bearish_crossover
                           then Inr (signal_at Signal_CLOSE symbol bar
                                       ''Exit long: Bearish EMA crossover'')
                           else Inr hold)
                     else if p < 0
                     then (if bullish_crossover
                           then Inr (signal_at Signal_CLOSE symbol bar
                                       ''Exit short: Bullish EMA crossover'')
                           else Inr hold)
                     else Inr hold))))))))))"

subsection \<open>\<^verbatim>\<open>CombinedStrategy\<close>\<close>

record CombinedStrategy =
  comb_rsi :: RSIStrategy
  comb_ema :: EMAStrategy
  confirmation_threshold :: int

definition init_combined ::
  "nat \<Rightarrow> real \<Rightarrow> real \<Rightarrow> nat \<Rightarrow> nat \<Rightarrow> int \<Rightarrow> CombinedStrategy" where
  "init_combined rsi_p rsi_os rsi_ob ema_short ema_long threshold =
     \<lparr>comb_rsi = \<lparr>rsi_period = rsi_p, rsi_oversold = rsi_os, rsi_overbought = rsi_ob,
                  rsi_neutral = 50\<rparr>,
      comb_ema = \<lparr>ema_short_period = ema_short, ema_long_period = ema_long\<rparr>,
      confirmation_threshold = threshold\<rparr>"

fun join_reasons :: "string list \<Rightarrow> string" where
  "join_reasons [] = []"
| "join_reasons [r] = r"
| "join_reasons (r # rs) = r @ '', '' @ join_reasons rs"

definition combined_generate_signal ::
  "CombinedStrategy \<Rightarrow> Bar list \<Rightarrow> string \<Rightarrow> int option \<Rightarrow> py_error + TradeSignal" where
  "combined_generate_signal st data symbol current_position =
     (if length data < max (rsi_period (comb_rsi st)) (ema_long_period (comb_ema st)) + 1
      then (case iloc_last data of
              Inl err \<Rightarrow> Inl err
            | Inr bar \<Rightarrow>
                Inr (signal_at Signal_HOLD symbol bar
                       ''Insufficient data for combined strategy''))
      else
        (case rsi_generate_signal (comb_rsi st) data symbol current_position of
           Inl err \<Rightarrow> Inl err | Inr rsi_signal \<Rightarrow>
        (case ema_generate_signal (comb_ema st) data symbol current_position of
           Inl err \<Rightarrow> Inl err | Inr ema_signal \<Rightarrow>
        (case iloc_last data of Inl err \<Rightarrow> Inl err | Inr bar \<Rightarrow>
        (case iloc_last (calculate_rsi (map b_close data) (rsi_period (comb_rsi st))) of
           Inl err \<Rightarrow> Inl err | Inr current_rsi \<Rightarrow>
        (case calculate_ema (map b_close data) (ema_short_period (comb_ema st)) of
           Inl err \<Rightarrow> Inl err | Inr short_ema \<Rightarrow>
        (case calculate_ema (map b_close data) (ema_long_period (comb_ema st)) of
           Inl err \<Rightarrow> Inl err | Inr long_ema \<Rightarrow>
        (case iloc_last short_ema of Inl err \<Rightarrow> Inl err | Inr current_short_ema \<Rightarrow>
        (case iloc_last long_ema of Inl err \<Rightarrow> Inl err | Inr current_long_ema \<Rightarrow>
          (if current_rsi = None \<or> current_short_ema = None \<or> current_long_ema = None
           then Inr (signal_at Signal_HOLD symbol bar ''Indicator calculation returned NaN'')
           else
             (let bullish_trend = np_less current_long_ema current_short_ema;
                  bearish_trend = np_less current_short_ema current_long_ema;
                  (bullish_votes, bearish_votes, reasons) =
                    (if sig_signal rsi_signal = Signal_BUY
                     then (1::nat, 0::nat, [''RSI oversold ({current_rsi:.1f})''])
                     else if sig_signal rsi_signal = Signal_SELL
                     then (0, 1, [''RSI overbought ({current_rsi:.1f})''])
                     else (0, 0, []));
                  (bullish_votes, bearish_votes, reasons) =
                    (if bullish_trend
                     then (bullish_votes + 1, bearish_votes, reasons @ [''EMA bullish trend''])
                     else if bearish_trend
                     then (bullish_votes, bearish_votes + 1, reasons @ [''EMA bearish trend''])
                     else (bullish_votes, bearish_votes, reasons));
                  (bullish_votes, bearish_votes, reasons) =
                    (if sig_signal ema_signal = Signal_BUY
                     then (bullish_votes + 1, bearish_votes,
                           reasons @ [''EMA bullish crossover''])
                     else if sig_signal ema_signal = Signal_SELL
                     then (bullish_votes, bearish_votes + 1,
                           reasons @ [''EMA bearish crossover''])
                     else (bullish_votes, bearish_votes, reasons));
                  hold = signal_at Signal_HOLD symbol bar
                    ''Insufficient confirmation (bull:{bullish_votes}, bear:{bearish_votes})'';
                  entry =
                    (if int bullish_votes \<ge> confirmation_threshold st
                     then signal_at Signal_BUY symbol bar
                            (''Buy confirmed by {bullish_votes}/3 indicators: ''
                               @ join_reasons reasons)
                     else if int bearish_votes \<ge> confirmation_threshold st
                     then signal_at Signal_SELL symbol bar
                            (''Sell confirmed by {bearish_votes}/3 indicators: ''
                               @ join_reasons reasons)
                     else hold)
              in case current_position of
                   None \<Rightarrow> Inr entry
                 | Some p \<Rightarrow>
                     if p = 0 then Inr entry
                     else if p > 0
                     then (if bearish_votes \<ge> 2 \<or> sig_signal rsi_signal = Signal_CLOSE
                           then Inr (signal_at Signal_CLOSE symbol bar
                                       ''Exit long: {bearish_votes} bearish signals'')
                           else Inr hold)
                     else if p < 0
                     then (if bullish_votes \<ge> 2 \<or> sig_signal rsi_signal = Signal_CLOSE
                           then Inr (signal_at Signal_CLOSE symbol bar
                                       ''Exit short: {bullish_votes} bullish signals'')
                           else Inr hold)
                     else Inr hold)))))))))))"

subsection \<open>\<^verbatim>\<open>StochasticStrategy\<close>\<close>

text \<open>
  \<open>k_values_loop\<close> is the \<^verbatim>\<open>for i in range(len(data) - self.k_period + 1)\<close> loop
  over the window starts. With no position given (\<^verbatim>\<open>None\<close>) the comparison
  \<^verbatim>\<open>current_position > 0\<close> raises \<^verbatim>\<open>TypeError\<close>.
\<close>

record StochasticStrategy =
  stoch_k_period :: nat
  stoch_d_period :: nat
  stoch_oversold :: real
  stoch_overbought :: real

fun k_values_loop ::
  "real list \<Rightarrow> real list \<Rightarrow> real list \<Rightarrow> nat \<Rightarrow> nat list \<Rightarrow> py_error + real list" where
  "k_values_loop highs lows closes k_period [] = Inr []"
| "k_values_loop highs lows closes k_period (i # rest) =
     (let window_high = take k_period (drop i highs);
          window_low = take k_period (drop i lows)
      in case py_getitem closes (int i + int k_period - 1) of
           Inl err \<Rightarrow> Inl err
         | Inr close_price \<Rightarrow>
        (case np_max window_high of Inl err \<Rightarrow> Inl err | Inr highest \<Rightarrow>
        (case np_min window_low of Inl err \<Rightarrow> Inl err | Inr lowest \<Rightarrow>
          (let k = (if highest = lowest then 50
                    else 100 * (close_price - lowest) / (highest - lowest))
           in case k_values_loop highs lows closes k_period rest of
                Inl err \<Rightarrow> Inl err
              | Inr ks \<Rightarrow> Inr (k # ks)))))"

definition stochastic_generate_signal ::
  "StochasticStrategy \<Rightarrow> Bar list \<Rightarrow> string \<Rightarrow> int option \<Rightarrow> py_error + TradeSignal" where
  "stochastic_generate_signal st data symbol current_position =
     (if length data < stoch_k_period st + stoch_d_period st
      then (case iloc_last data of
              Inl err \<Rightarrow> Inl err
            | Inr bar \<Rightarrow> Inr (signal_at Signal_HOLD symbol bar ''Insufficient data''))
      else
        (case k_values_loop (map b_high data) (map b_low data) (map b_close data)
                (stoch_k_period st) [0..<length data + 1 - stoch_k_period st] of
           Inl err \<Rightarrow> Inl err
         | Inr k_values \<Rightarrow>
           (if length k_values < stoch_d_period st
            then (case iloc_last data of
                    Inl err \<Rightarrow> Inl err
                  | Inr bar \<Rightarrow>
                      Inr (signal_at Signal_HOLD symbol bar ''Insufficient K values''))
            else
              (let d_values = rolling_mean k_values (stoch_d_period st)
               in case iloc_last k_values of Inl err \<Rightarrow> Inl err | Inr current_k \<Rightarrow>
                 (case iloc_last d_values of Inl err \<Rightarrow> Inl err | Inr current_d \<Rightarrow>
                 (let prev_k = (if length k_values > 1
                                then k_values ! (length k_values - 2) else current_k);
                      prev_d = (if length d_values > 1
                                then d_values ! (length d_values - 2) else current_d)
                  in case iloc_last data of Inl err \<Rightarrow> Inl err | Inr bar \<Rightarrow>
                    (case (current_d, prev_d) of
                       (Some cd, Some pd) \<Rightarrow>
                         (let hold = signal_at Signal_HOLD symbol bar
                                ''Stochastic neutral: K={current_k:.1f}, D={current_d:.1f}''
                          in case current_position of
                               None \<Rightarrow> Inl TypeError
                             | Some p \<Rightarrow>
                                 if p = 0
                                 then
                                   (if current_k < stoch_oversold st \<and> prev_k < pd
                                       \<and> current_k > cd
                                    then Inr (signal_at Signal_BUY symbol bar
                     ''Stochastic oversold crossover: K={current_k:.1f}, D={current_d:.1f}'')
                                    else if current_k > stoch_overbought st \<and> prev_k > pd
                                       \<and> current_k < cd
                                    then Inr (signal_at Signal_SELL symbol bar
                     ''Stochastic overbought crossover: K={current_k:.1f}, D={current_d:.1f}'')
                                    else Inr hold)
                                 else if p > 0
                                 then
                                   (if current_k > 60
                                       \<or> (current_k < cd \<and> current_k > stoch_oversold st)
                                    then Inr (signal_at Signal_CLOSE symbol bar
                                          ''Exit long: K={current_k:.1f}, D={current_d:.1f}'')
                                    else Inr hold)
                                 else if p < 0
                                 then
                                   (if current_k < 40
                                       \<or> (current_k > cd \<and> current_k < stoch_overbought st)
                                    then Inr (signal_at Signal_CLOSE symbol bar
                                          ''Exit short: K={current_k:.1f}, D={current_d:.1f}'')
                                    else Inr hold)
                                 else Inr hold)
                     | _ \<Rightarrow> Inr (signal_at Signal_HOLD symbol bar ''Invalid D values''))))))))"

subsection \<open>The strategy variants\<close>

text \<open>A strategy object is one of the five classes; the call dispatches on the class.\<close>

datatype Strategy =
    RSI RSIStrategy
  | MACrossover MACrossoverStrategy
  | EMA EMAStrategy
  | Combined CombinedStrategy
  | Stochastic StochasticStrategy

fun strategy_generate_signal ::
  "Strategy \<Rightarrow> Bar list \<Rightarrow> string \<Rightarrow> int option \<Rightarrow> py_error + TradeSignal" where
  "strategy_generate_signal (RSI st) = rsi_generate_signal st"
| "strategy_generate_signal (MACrossover st) = ma_generate_signal st"
| "strategy_generate_signal (EMA st) = ema_generate_signal st"
| "strategy_generate_signal (Combined st) = combined_generate_signal st"
| "strategy_generate_signal (Stochastic st) = stochastic_generate_signal st"

section \<open>The market regime analyzer (\<^verbatim>\<open>analysis/market_regime.py\<close>)\<close>

text \<open>
  numpy's \<^verbatim>\<open>mean\<close>, \<^verbatim>\<open>std\<close> (population standard deviation), \<^verbatim>\<open>diff\<close> and the
  slope of \<^verbatim>\<open>polyfit(range(n), ys, 1)\<close> (least squares, for at least two points) by
  their mathematical definitions. \<open>last_n n xs\<close> is the slice \<^verbatim>\<open>xs[-n:]\<close>.
\<close>

datatype MarketRegime = UPTREND | DOWNTREND | SIDEWAYS

definition np_mean :: "real list \<Rightarrow> real" where
  "np_mean xs = sum_list xs / real (length xs)"

definition np_std :: "real list \<Rightarrow> real" where
  "np_std xs = sqrt (np_mean (map (\<lambda>x. (x - np_mean xs)\<^sup>2) xs))"

definition np_diff :: "real list \<Rightarrow> real list" where
  "np_diff xs = map2 (\<lambda>a b. b - a) xs (tl xs)"

definition polyfit_slope :: "real list \<Rightarrow> real" where
  "polyfit_slope ys =
     (let n = real (length ys);
          xs = map real [0..<length ys];
          sx = sum_list xs;
          sy = sum_list ys;
          sxy = sum_list (map2 (\<lambda>x y. x * y) xs ys);
          sxx = sum_list (map (\<lambda>x. x * x) xs)
      in (n * sxy - sx * sy) / (n * sxx - sx * sx))"

definition last_n :: "nat \<Rightarrow> 'a list \<Rightarrow> 'a list" where
  "last_n n xs = (if n = 0 then xs else drop (length xs - n) xs)"

record MarketRegimeAnalyzer =
  lookback_period :: nat

definition detect_trend :: "MarketRegimeAnalyzer \<Rightarrow> real list \<Rightarrow> MarketRegime" where
  "detect_trend an prices =
     (if length prices < lookback_period an then SIDEWAYS
      else
        (let recent = last_n (lookback_period an) prices;
             slope = polyfit_slope recent;
             std = np_std recent;
             threshold = std * 0.1
         in if slope > threshold then UPTREND
            else if slope < - threshold then DOWNTREND
            else SIDEWAYS))"

text \<open>
  The returns divide by each price but the last, in numpy arithmetic: a zero price makes
  a return inf or NaN, and the standard deviation NaN.
\<close>

definition calculate_volatility :: "real list \<Rightarrow> real option" where
  "calculate_volatility prices =
     (if length prices < 2 then Some 0
      else if 0 \<in> set (butlast prices) then None
      else
        (let returns = map2 (\<lambda>d p. d / p) (np_diff prices) (butlast prices)
         in Some (np_std returns * sqrt 252 * 100)))"

text \<open>
  The three lists come from the same bars and have the same length. The divisor of the
  last line is positive: the directional indicators are not negative.
\<close>

definition calculate_adx :: "real list \<Rightarrow> real list \<Rightarrow> real list \<Rightarrow> nat \<Rightarrow> real" where
  "calculate_adx high low close_prices period =
     (if length high < period + 1 then 0
      else
        (let high = last_n (period + 1) high;
             low = last_n (period + 1) low;
             close_prices = last_n (period + 1) close_prices;
             plus_dm = map (\<lambda>d. max d 0) (np_diff high);
             minus_dm = map2 (\<lambda>a b. max (a - b) 0) (butlast low) (tl low);
             tr = map (\<lambda>(h, l, c). max (h - l) (max \<bar>h - c\<bar> \<bar>l - c\<bar>))
                    (zip (tl high) (zip (tl low) (butlast close_prices)));
             atr = np_mean tr
         in if atr = 0 then 0
            else
              (let plus_di = 100 * np_mean plus_dm / atr;
                   minus_di = 100 * np_mean minus_dm / atr
               in 100 * \<bar>plus_di - minus_di\<bar> / (plus_di + minus_di + 1 / 10 ^ 10))))"

definition analyze_volume :: "real list \<Rightarrow> string" where
  "analyze_volume volumes =
     (if length volumes < 20 then ''NEUTRAL''
      else
        (let recent = last_n 20 volumes;
             avg = np_mean recent;
             recent_avg = np_mean (last_n 5 recent)
         in if recent_avg > avg * 1.2 then ''HIGH''
            else if recent_avg < avg * 0.8 then ''LOW''
            else ''NEUTRAL''))"

record MarketConditions =
  mc_trend :: MarketRegime
  mc_volatility :: "real option"
  mc_adx :: real
  mc_volume :: string
  mc_trending :: bool
  mc_sideways :: bool

definition get_market_conditions :: "MarketRegimeAnalyzer \<Rightarrow> Bar list \<Rightarrow> MarketConditions" where
  "get_market_conditions an data =
     (let prices = map b_close data;
          highs = map b_high data;
          lows = map b_low data;
          volumes = map b_volume data;
          trend = detect_trend an prices;
          volatility = calculate_volatility prices;
          adx = calculate_adx highs lows prices 14;
          volume_profile = analyze_volume volumes
      in \<lparr>mc_trend = trend, mc_volatility = volatility, mc_adx = adx,
          mc_volume = volume_profile, mc_trending = (adx > 25), mc_sideways = (adx < 20)\<rparr>)"

section \<open>The adaptive selector (\<^verbatim>\<open>strategies/adaptive_selector.py\<close>)\<close>

text \<open>
  The selector keeps the strategy it chose in \<^verbatim>\<open>current_strategy\<close>.
  \<^verbatim>\<open>select_strategy\<close> returns the selector with that field written, the strategy,
  the reason and the conditions; \<^verbatim>\<open>generate_signal\<close> returns the selector and what
  the strategy returns or raises.
\<close>

record AdaptiveStrategySelector =
  regime_analyzer :: MarketRegimeAnalyzer
  current_strategy :: "Strategy option"

definition init_selector :: AdaptiveStrategySelector where
  "init_selector = \<lparr>regime_analyzer = \<lparr>lookback_period = 60\<rparr>, current_strategy = None\<rparr>"

definition select_strategy ::
  "AdaptiveStrategySelector \<Rightarrow> Bar list
     \<Rightarrow> AdaptiveStrategySelector \<times> Strategy \<times> string \<times> MarketConditions" where
  "select_strategy sel market_data =
     (let conditions = get_market_conditions (regime_analyzer sel) market_data;
          trend = mc_trend conditions;
          volatility = mc_volatility conditions;
          adx = mc_adx conditions;
          (strategy, reason) =
            (if mc_sideways conditions \<or> adx < 20
             then (Stochastic \<lparr>stoch_k_period = 14, stoch_d_period = 3,
                               stoch_oversold = 20, stoch_overbought = 80\<rparr>,
                   ''Sideways market (ADX={adx:.1f})'')
             else if trend = UPTREND \<and> np_less volatility (Some 20)
             then (EMA \<lparr>ema_short_period = 12, ema_long_period = 26\<rparr>,
                   ''Uptrend with low volatility (Vol={volatility:.1f}%)'')
             else if trend = DOWNTREND \<and> np_less volatility (Some 20)
             then (EMA \<lparr>ema_short_period = 12, ema_long_period = 26\<rparr>,
                   ''Downtrend with low volatility (Vol={volatility:.1f}%)'')
             else if np_less (Some 30) volatility
             then (RSI \<lparr>rsi_period = 14, rsi_oversold = 30, rsi_overbought = 70,
                        rsi_neutral = 50\<rparr>,
                   ''High volatility (Vol={volatility:.1f}%)'')
             else (Combined (init_combined 14 30 70 12 26 2),
                   ''Mixed conditions (Trend={trend}, Vol={volatility:.1f}%)''))
      in (sel\<lparr>current_strategy := Some strategy\<rparr>, strategy, reason, conditions))"

definition adaptive_generate_signal ::
  "AdaptiveStrategySelector \<Rightarrow> Bar list \<Rightarrow> string \<Rightarrow> int option
     \<Rightarrow> AdaptiveStrategySelector \<times> (py_error + TradeSignal)" where
  "adaptive_generate_signal sel data symbol current_position =
     (let sel = (if current_strategy sel = None then fst (select_strategy sel data) else sel)
      in case current_strategy sel of
           None \<Rightarrow> (sel, Inl AttributeError)
         | Some strategy \<Rightarrow> (sel, strategy_generate_signal strategy data symbol current_position))"

section \<open>Vocabulary of the strategy claims\<close>











section \<open>Fixtures of the strategy scenarios\<close>

text \<open>
  Bars as the driver builds them from a price: open and close at the price, high and low
  0.1 percent above and below it, volume 1,000; the timestamp is the index.
\<close>

definition bars_of_closes :: "real list \<Rightarrow> Bar list" where
  "bars_of_closes cs =
     map (\<lambda>(i, c). \<lparr>b_timestamp = i, b_open = c, b_high = c * 1.001, b_low = c * 0.999,
                     b_close = c, b_volume = 1000\<rparr>) (enumerate 0 cs)"



definition stochastic_14_3 :: StochasticStrategy where
  "stochastic_14_3 = \<lparr>stoch_k_period = 14, stoch_d_period = 3,
                       stoch_oversold = 20, stoch_overbought = 80\<rparr>"



definition flat_bars :: "Bar list" where
  "flat_bars = bars_of_closes
     [100, 100, 100, 100, 100, 100, 100, 100, 100, 100, 100, 100, 100, 100, 100]"

definition rising_bars :: "Bar list" where
  "rising_bars = bars_of_closes
     [100, 101, 102, 103, 104, 105, 106, 107, 108, 109, 110, 111, 112, 113, 114]"


section \<open>Properties of the execution engine\<close>

lemmas engine_defs =
  execute_market_order_def init_engine_def apply_slippage_def calculate_commission_def
  calculate_available_capital_def fill_def reject_def update_position_from_order_def
  market_order_def get_margin_required_def get_position_value_def price_or_entry_def
  close_def calculate_unrealized_pnl_def calculate_unrealized_pnl_percentage_def
  get_total_unrealized_pnl_def get_total_realized_pnl_def get_total_portfolio_value_def

lemma scenario_after_buy_eq:
  "scenario_after_buy =
     \<lparr>initial_capital = 10000, cash = 9000, max_leverage = 1, slippage_pct = 0,
      commission_pct = 0,
      positions = [(''X'', \<lparr>p_symbol = ''X'', p_quantity = 10, p_entry_price = 100,
                              p_entry_timestamp = Some 0, p_leverage = 1\<rparr>)],
      closed_positions = [], pending_orders = [],
      filled_orders = [fill (market_order ''X'' BUY 10 0) 100 0], all_orders = []\<rparr>"
  by (simp add: scenario_after_buy_def engine_defs Let_def)

subsection \<open>C1: the round trip BUY 10 at 100, SELL 10 at 110\<close>

text \<open>
  Claim C1. With capital 10,000, leverage 1, slippage 0 and commission 0, the BUY of 10
  units at 100 is executed, leaves cash 9,000 and a long position of 10 at entry price
  100; at price 110 the unrealized P&L is 100; the SELL of 10 units at 110 is executed,
  realizes a P&L of 100 and removes the position. The claim then has cash at 10,100. The
  engine ends with cash 9,100: the full close credits the realized P&L only, and the
  1,000 debited when the position was opened are never credited back.
\<close>

theorem C1_round_trip_cash:
  "fst (execute_market_order (init_engine 10000 1 0 0)
          (market_order ''X'' BUY 10 0) 100 [''X'' \<mapsto> 100] 0) = Inr True
   \<and> cash scenario_after_buy = 9000
   \<and> map_of (positions scenario_after_buy) ''X''
       = Some \<lparr>p_symbol = ''X'', p_quantity = 10, p_entry_price = 100,
               p_entry_timestamp = Some 0, p_leverage = 1\<rparr>
   \<and> get_total_unrealized_pnl scenario_after_buy [''X'' \<mapsto> 110] = 100
   \<and> fst (execute_market_order scenario_after_buy
            (market_order ''X'' SELL 10 1) 110 [''X'' \<mapsto> 110] 1) = Inr True
   \<and> map cp_realized_pnl (closed_positions scenario_after_sell) = [100]
   \<and> get_total_realized_pnl scenario_after_sell = 100
   \<and> positions scenario_after_sell = []
   \<and> cash scenario_after_sell = 9100
   \<and> cash scenario_after_sell \<noteq> 10100"
  unfolding scenario_after_sell_def scenario_after_buy_eq
  by (simp add: engine_defs Let_def)

subsection \<open>C2: margin admission\<close>

text \<open>
  Claim C2, as amended. For every BUY order and every engine state, if the order's
  required margin, (trade value + commission) / max leverage at the fill price, strictly
  exceeds the result of \<^verbatim>\<open>calculate_available_capital\<close> at the current prices, then
  \<^verbatim>\<open>execute_market_order\<close> sets the order's status to REJECTED, returns false and
  leaves the whole engine (cash, position book, closed-position log) unchanged. The
  required margin is defined when the max leverage is not zero.
\<close>

theorem C2_buy_rejected:
  assumes "o_side order = BUY" and "max_leverage e \<noteq> 0"
    and "calculate_available_capital e current_prices = Inr available"
    and "(real_of_int \<bar>o_quantity order\<bar> * apply_slippage e current_price BUY
          + calculate_commission e (o_quantity order) (apply_slippage e current_price BUY))
           / max_leverage e > available"
  shows "execute_market_order e order current_price current_prices timestamp
           = (Inr False, order\<lparr>o_status := REJECTED\<rparr>, e)"
  using assms by (simp add: execute_market_order_def Let_def reject_def)

text \<open>
  Witness for C2: a fresh engine with capital 10,000 rejects a BUY of 200 units at 100,
  whose required margin is 20,000.
\<close>

theorem C2_buy_rejected_witness:
  "o_side (market_order ''X'' BUY 200 0) = BUY
   \<and> max_leverage (init_engine 10000 1 0 0) \<noteq> 0
   \<and> calculate_available_capital (init_engine 10000 1 0 0) Map.empty = Inr 10000
   \<and> execute_market_order (init_engine 10000 1 0 0) (market_order ''X'' BUY 200 0)
         100 Map.empty 0
       = (Inr False, (market_order ''X'' BUY 200 0)\<lparr>o_status := REJECTED\<rparr>,
          init_engine 10000 1 0 0)"
proof -
  have side: "o_side (market_order ''X'' BUY 200 0) = BUY"
    by (simp add: market_order_def)
  have lev: "max_leverage (init_engine 10000 1 0 0) \<noteq> 0"
    by (simp add: init_engine_def)
  have avail: "calculate_available_capital (init_engine 10000 1 0 0) Map.empty = Inr 10000"
    by (simp add: calculate_available_capital_def init_engine_def)
  have margin: "(real_of_int \<bar>o_quantity (market_order ''X'' BUY 200 0)\<bar>
                   * apply_slippage (init_engine 10000 1 0 0) 100 BUY
                 + calculate_commission (init_engine 10000 1 0 0)
                     (o_quantity (market_order ''X'' BUY 200 0))
                     (apply_slippage (init_engine 10000 1 0 0) 100 BUY))
                / max_leverage (init_engine 10000 1 0 0) > 10000"
    by (simp add: market_order_def init_engine_def apply_slippage_def calculate_commission_def)
  show ?thesis
    using side lev avail C2_buy_rejected [OF side lev avail margin, of 0] by simp
qed

text \<open>
  Counterexample to C2 as stated (for BUY or SELL): on the same engine a SELL of 200
  units at 100 has the same required margin of 20,000, above the available capital of
  10,000; it is filled all the same, cash rises to 30,000 and a short position of 200
  enters the book.
\<close>

theorem C2_sell_not_rejected:
  "calculate_available_capital (init_engine 10000 1 0 0) Map.empty = Inr 10000
   \<and> (real_of_int \<bar>o_quantity (market_order ''X'' SELL 200 0)\<bar>
         * apply_slippage (init_engine 10000 1 0 0) 100 SELL
       + calculate_commission (init_engine 10000 1 0 0)
           (o_quantity (market_order ''X'' SELL 200 0))
           (apply_slippage (init_engine 10000 1 0 0) 100 SELL))
      / max_leverage (init_engine 10000 1 0 0) = 20000
   \<and> fst (execute_market_order (init_engine 10000 1 0 0)
            (market_order ''X'' SELL 200 0) 100 Map.empty 0) = Inr True
   \<and> o_status (fst (snd (execute_market_order (init_engine 10000 1 0 0)
            (market_order ''X'' SELL 200 0) 100 Map.empty 0))) = FILLED
   \<and> cash (snd (snd (execute_market_order (init_engine 10000 1 0 0)
            (market_order ''X'' SELL 200 0) 100 Map.empty 0))) = 30000
   \<and> map (p_quantity \<circ> snd) (positions (snd (snd (execute_market_order
            (init_engine 10000 1 0 0) (market_order ''X'' SELL 200 0) 100 Map.empty 0))))
       = [- 200]"
  by (simp add: engine_defs Let_def)

subsection \<open>C3: the conservation invariant\<close>

lemma unrealized_loop_sum:
  "unrealized_loop prices ps acc =
     acc + (\<Sum>(symbol, position)\<leftarrow>ps.
              calculate_unrealized_pnl position (price_or_entry prices symbol position))"
  by (induction ps arbitrary: acc) (auto simp: Let_def)

text \<open>
  Claim C3. For every engine state (so for every state reached by executed fills) and
  every price mapping, \<^verbatim>\<open>get_total_portfolio_value\<close> returns cash plus the sum, over
  the open positions, of their unrealized P&L at the price the mapping gives them, which
  is also cash plus \<^verbatim>\<open>get_total_unrealized_pnl\<close>.
\<close>

theorem C3_conservation:
  "get_total_portfolio_value e current_prices =
     cash e + (\<Sum>(symbol, position)\<leftarrow>positions e.
                 calculate_unrealized_pnl position
                   (price_or_entry current_prices symbol position))
   \<and> get_total_portfolio_value e current_prices =
     cash e + get_total_unrealized_pnl e current_prices"
  by (simp add: get_total_portfolio_value_def get_total_unrealized_pnl_def unrealized_loop_sum)

subsection \<open>C10: positions with no current price\<close>

lemma unrealized_loop_priced:
  "unrealized_loop prices ps acc =
     acc + (\<Sum>(symbol, position)\<leftarrow>ps.
              case prices symbol of None \<Rightarrow> 0
              | Some c \<Rightarrow> calculate_unrealized_pnl position c)"
  by (induction ps arbitrary: acc)
     (auto simp: Let_def price_or_entry_def calculate_unrealized_pnl_def split: option.splits)

text \<open>
  Claim C10. A position whose symbol is absent from the current-prices mapping is priced
  at its own entry price, so it adds exactly 0 to \<^verbatim>\<open>get_total_unrealized_pnl\<close> and to
  \<^verbatim>\<open>get_total_portfolio_value\<close>: both are sums in which such a position counts 0 and
  every other position counts its P&L at the mapped price. Neither function has an error
  result.
\<close>

theorem C10_missing_price:
  "get_total_unrealized_pnl e current_prices =
     (\<Sum>(symbol, position)\<leftarrow>positions e.
        case current_prices symbol of None \<Rightarrow> 0
        | Some c \<Rightarrow> calculate_unrealized_pnl position c)
   \<and> get_total_portfolio_value e current_prices =
     cash e + (\<Sum>(symbol, position)\<leftarrow>positions e.
        case current_prices symbol of None \<Rightarrow> 0
        | Some c \<Rightarrow> calculate_unrealized_pnl position c)"
  by (simp add: get_total_portfolio_value_def get_total_unrealized_pnl_def
      unrealized_loop_priced)

subsection \<open>C4: realized-P&L records and commission\<close>

lemma closing_fill_appends_one_record:
  assumes "o_fill_price order = Some fp"
    and "map_of (positions e) (o_symbol order) = Some pos"
    and "reduces_position pos order"
    and "\<bar>signed_quantity order\<bar> \<ge> \<bar>p_quantity pos\<bar>"
  shows "closed_positions (snd (update_position_from_order e order commission))
           = closed_positions e @ [close pos fp (o_fill_timestamp order)]"
  using assms
  by (simp add: update_position_from_order_def Let_def signed_quantity_def
      reduces_position_def)

lemma partial_close_appends_no_record:
  assumes "o_fill_price order = Some fp"
    and "map_of (positions e) (o_symbol order) = Some pos"
    and "reduces_position pos order"
    and "\<bar>signed_quantity order\<bar> < \<bar>p_quantity pos\<bar>"
  shows "closed_positions (snd (update_position_from_order e order commission))
           = closed_positions e
       \<and> cash (snd (update_position_from_order e order commission))
           = cash e + (fp - p_entry_price pos) * real_of_int (- signed_quantity order)
               - commission"
  using assms
  by (auto simp add: update_position_from_order_def Let_def signed_quantity_def
      reduces_position_def algebra_simps)

lemma commission_charged_once:
  assumes "fst (update_position_from_order e order commission) = None"
  shows "cash (snd (update_position_from_order e order commission))
           = cash (snd (update_position_from_order e order 0))
             - (case map_of (positions e) (o_symbol order) of
                  None \<Rightarrow> commission / max_leverage e
                | Some pos \<Rightarrow> if reduces_position pos order then commission
                              else commission / max_leverage e)"
  using assms
  by (auto simp add: update_position_from_order_def Let_def signed_quantity_def
      reduces_position_def diff_divide_distrib add_divide_distrib
      split: option.splits if_splits)

text \<open>
  Claim C4 says that every fill that closes or reduces a position, a partial close
  included, appends exactly one ClosedPosition record. The engine does so for a full close
  and for a reversal (\<open>closing_fill_appends_one_record\<close>), and it charges the commission
  once on every fill (\<open>commission_charged_once\<close>), but a partial close appends nothing
  (\<open>partial_close_appends_no_record\<close>). Here the long position of 10 at 100 is reduced
  by a SELL of 4 at 110: the fill is executed, 6 units stay open, cash takes the realized
  40, and the closed-position log stays empty, so the total realized P&L reads 0.
\<close>

theorem C4_partial_close_no_record:
  "fst (execute_market_order scenario_after_buy (market_order ''X'' SELL 4 1) 110
          [''X'' \<mapsto> 110] 1) = Inr True
   \<and> map (p_quantity \<circ> snd) (positions (snd (snd (execute_market_order scenario_after_buy
          (market_order ''X'' SELL 4 1) 110 [''X'' \<mapsto> 110] 1)))) = [6]
   \<and> cash (snd (snd (execute_market_order scenario_after_buy
          (market_order ''X'' SELL 4 1) 110 [''X'' \<mapsto> 110] 1))) = 9040
   \<and> closed_positions (snd (snd (execute_market_order scenario_after_buy
          (market_order ''X'' SELL 4 1) 110 [''X'' \<mapsto> 110] 1))) = []
   \<and> get_total_realized_pnl (snd (snd (execute_market_order scenario_after_buy
          (market_order ''X'' SELL 4 1) 110 [''X'' \<mapsto> 110] 1))) = 0"
  unfolding scenario_after_buy_eq by (simp add: engine_defs Let_def)

subsection \<open>C5: reversal\<close>

lemma filter_key_update_absent:
  "map_of ps k = None \<Longrightarrow> filter (\<lambda>(k', v). k' = k) (AList.update k v ps) = [(k, v)]"
  by (induction ps) (auto split: if_splits)

lemma map_of_delete_None: "map_of (AList.delete k ps) k = None"
  by (simp add: delete_conv')

text \<open>
  Claim C5. For every existing position and every fill on the opposite side whose absolute
  quantity strictly exceeds the position's (a reversal), the fill appends exactly one
  ClosedPosition record, the close of the old position at the fill price, and leaves
  exactly one position for the symbol: it has the remainder as quantity, so the opposite
  direction, and the fill price as entry price. The positions of other symbols are
  untouched. This is the state of the engine when the method leaves, whether or not its
  last division (by the max leverage) raises.
\<close>

theorem C5_reversal:
  assumes fp: "o_fill_price order = Some fp"
    and pos: "map_of (positions e) (o_symbol order) = Some pos"
    and opp: "reduces_position pos order"
    and more: "\<bar>signed_quantity order\<bar> > \<bar>p_quantity pos\<bar>"
  shows "closed_positions (snd (update_position_from_order e order commission))
           = closed_positions e @ [close pos fp (o_fill_timestamp order)]
       \<and> filter (\<lambda>(symbol, position). symbol = o_symbol order)
            (positions (snd (update_position_from_order e order commission)))
           = [(o_symbol order,
               \<lparr>p_symbol = o_symbol order,
                p_quantity = p_quantity pos + signed_quantity order,
                p_entry_price = fp,
                p_entry_timestamp = o_fill_timestamp order,
                p_leverage = max_leverage e\<rparr>)]
       \<and> (p_quantity pos > 0 \<longrightarrow> p_quantity pos + signed_quantity order < 0)
       \<and> (p_quantity pos < 0 \<longrightarrow> p_quantity pos + signed_quantity order > 0)
       \<and> (\<forall>other. other \<noteq> o_symbol order \<longrightarrow>
             map_of (positions (snd (update_position_from_order e order commission))) other
               = map_of (positions e) other)"
proof -
  let ?q = "signed_quantity order"
  let ?e' = "snd (update_position_from_order e order commission)"
  let ?new = "\<lparr>p_symbol = o_symbol order, p_quantity = p_quantity pos + ?q,
                p_entry_price = fp, p_entry_timestamp = o_fill_timestamp order,
                p_leverage = max_leverage e\<rparr>"
  have q: "(if o_side order = BUY then o_quantity order else - o_quantity order) = ?q"
    by (simp add: signed_quantity_def)
  have opp': "(p_quantity pos > 0 \<and> ?q < 0) \<or> (p_quantity pos < 0 \<and> ?q > 0)"
    using opp by (simp add: reduces_position_def)
  have ge: "\<bar>p_quantity pos\<bar> \<le> \<bar>?q\<bar>" using more by simp
  have book: "positions ?e' = AList.update (o_symbol order) ?new
                                (AList.delete (o_symbol order) (positions e))"
    and log: "closed_positions ?e'
                = closed_positions e @ [close pos fp (o_fill_timestamp order)]"
    using fp pos opp' more ge
    by (simp_all add: update_position_from_order_def Let_def q)
  have one: "filter (\<lambda>(symbol, position). symbol = o_symbol order) (positions ?e')
               = [(o_symbol order, ?new)]"
    unfolding book by (rule filter_key_update_absent) (rule map_of_delete_None)
  have others: "\<forall>other. other \<noteq> o_symbol order \<longrightarrow>
                  map_of (positions ?e') other = map_of (positions e) other"
    unfolding book by (simp add: update_conv' delete_conv')
  have sign: "(p_quantity pos > 0 \<longrightarrow> p_quantity pos + ?q < 0)
              \<and> (p_quantity pos < 0 \<longrightarrow> p_quantity pos + ?q > 0)"
    using opp' more by auto
  show ?thesis using log one others sign by simp
qed

text \<open>
  Witness for C5: the long position of 10 at 100 meets a SELL of 15 filled at 110. The
  log gains the close of the long position and the book holds one position, short 5 at
  110.
\<close>

theorem C5_reversal_witness:
  "o_fill_price (fill (market_order ''X'' SELL 15 1) 110 1) = Some 110
   \<and> map_of (positions scenario_after_buy) (o_symbol (fill (market_order ''X'' SELL 15 1) 110 1))
       = Some long_10_at_100
   \<and> reduces_position long_10_at_100 (fill (market_order ''X'' SELL 15 1) 110 1)
   \<and> \<bar>signed_quantity (fill (market_order ''X'' SELL 15 1) 110 1)\<bar>
       > \<bar>p_quantity long_10_at_100\<bar>
   \<and> closed_positions (snd (update_position_from_order scenario_after_buy
          (fill (market_order ''X'' SELL 15 1) 110 1) 0))
       = [close long_10_at_100 110 (Some 1)]
   \<and> positions (snd (update_position_from_order scenario_after_buy
          (fill (market_order ''X'' SELL 15 1) 110 1) 0))
       = [(''X'', \<lparr>p_symbol = ''X'', p_quantity = - 5, p_entry_price = 110,
                    p_entry_timestamp = Some 1, p_leverage = 1\<rparr>)]"
proof -
  let ?o = "fill (market_order ''X'' SELL 15 1) 110 1"
  have fp: "o_fill_price ?o = Some 110"
    by (simp add: fill_def)
  have pos: "map_of (positions scenario_after_buy) (o_symbol ?o) = Some long_10_at_100"
    by (simp add: scenario_after_buy_eq fill_def market_order_def long_10_at_100_def)
  have opp: "reduces_position long_10_at_100 ?o"
    by (simp add: reduces_position_def signed_quantity_def long_10_at_100_def fill_def
        market_order_def)
  have more: "\<bar>signed_quantity ?o\<bar> > \<bar>p_quantity long_10_at_100\<bar>"
    by (simp add: signed_quantity_def long_10_at_100_def fill_def market_order_def)
  have book: "positions (snd (update_position_from_order scenario_after_buy ?o 0))
                = [(''X'', \<lparr>p_symbol = ''X'', p_quantity = - 5, p_entry_price = 110,
                             p_entry_timestamp = Some 1, p_leverage = 1\<rparr>)]"
    unfolding scenario_after_buy_eq by (simp add: engine_defs Let_def)
  from C5_reversal [OF fp pos opp more, of 0]
  have "closed_positions (snd (update_position_from_order scenario_after_buy ?o 0))
          = closed_positions scenario_after_buy @ [close long_10_at_100 110 (Some 1)]"
    by (simp add: fill_def)
  then show ?thesis
    using fp pos opp more book by (simp add: scenario_after_buy_eq)
qed

subsection \<open>C9: SELL orders pass no margin check\<close>

lemma positions_differ_by_lookup:
  "map_of ps' k \<noteq> map_of ps k \<Longrightarrow> ps' \<noteq> ps"
  by auto

lemma update_changes_book:
  assumes fp: "o_fill_price order = Some fp"
    and lev: "max_leverage e \<noteq> 0"
    and q: "signed_quantity order \<noteq> 0"
  shows "fst (update_position_from_order e order commission) = None
       \<and> positions (snd (update_position_from_order e order commission)) \<noteq> positions e"
proof -
  let ?q = "signed_quantity order"
  let ?k = "o_symbol order"
  let ?e' = "snd (update_position_from_order e order commission)"
  have sq: "(if o_side order = BUY then o_quantity order else - o_quantity order) = ?q"
    by (simp add: signed_quantity_def)
  show ?thesis
  proof (cases "map_of (positions e) ?k")
    case None
    with fp lev have "fst (update_position_from_order e order commission) = None"
      and "map_of (positions ?e') ?k \<noteq> map_of (positions e) ?k"
      by (simp_all add: update_position_from_order_def Let_def update_conv')
    then show ?thesis by (auto dest: positions_differ_by_lookup)
  next
    case (Some pos)
    have tq: "\<bar>p_quantity pos\<bar> + \<bar>?q\<bar> \<noteq> 0" using q by simp
    have neq: "pos\<lparr>p_quantity := p_quantity pos + ?q\<rparr> \<noteq> pos"
    proof
      assume "pos\<lparr>p_quantity := p_quantity pos + ?q\<rparr> = pos"
      then have "p_quantity (pos\<lparr>p_quantity := p_quantity pos + ?q\<rparr>) = p_quantity pos"
        by simp
      with q show False by simp
    qed
    have neq2: "pos\<lparr>p_entry_price := x, p_quantity := p_quantity pos + ?q\<rparr> \<noteq> pos" for x
    proof
      assume "pos\<lparr>p_entry_price := x, p_quantity := p_quantity pos + ?q\<rparr> = pos"
      then have "p_quantity (pos\<lparr>p_entry_price := x, p_quantity := p_quantity pos + ?q\<rparr>)
                   = p_quantity pos"
        by simp
      with q show False by simp
    qed
    have neq3: "\<lparr>p_symbol = s, p_quantity = p_quantity pos + ?q, p_entry_price = x,
                  p_entry_timestamp = t, p_leverage = l\<rparr> \<noteq> pos" for s x t l
    proof
      assume "\<lparr>p_symbol = s, p_quantity = p_quantity pos + ?q, p_entry_price = x,
                p_entry_timestamp = t, p_leverage = l\<rparr> = pos"
      then have "p_quantity \<lparr>p_symbol = s, p_quantity = p_quantity pos + ?q,
                   p_entry_price = x, p_entry_timestamp = t, p_leverage = l\<rparr>
                   = p_quantity pos"
        by simp
      with q show False by simp
    qed
    from Some fp lev tq have "fst (update_position_from_order e order commission) = None"
      by (simp add: update_position_from_order_def Let_def sq)
    moreover from Some fp lev tq neq neq2 neq3
    have "map_of (positions ?e') ?k \<noteq> map_of (positions e) ?k"
      by (simp add: update_position_from_order_def Let_def sq update_conv' delete_conv')
    ultimately show ?thesis by (auto dest: positions_differ_by_lookup)
  qed
qed

lemma update_cash_sell:
  assumes fp: "o_fill_price order = Some fp"
    and side: "o_side order = SELL"
    and lev: "max_leverage e \<noteq> 0"
    and q: "o_quantity order \<noteq> 0"
  shows "cash (snd (update_position_from_order e order commission)) =
     cash e +
       (case map_of (positions e) (o_symbol order) of
          None \<Rightarrow> (real_of_int \<bar>o_quantity order\<bar> * fp - commission) / max_leverage e
        | Some pos \<Rightarrow>
            if reduces_position pos order
            then (if \<bar>p_quantity pos\<bar> < \<bar>o_quantity order\<bar>
                  then (fp - p_entry_price pos) * real_of_int (p_quantity pos) - commission
                       - real_of_int \<bar>p_quantity pos - o_quantity order\<bar> * fp
                           / max_leverage e
                  else if \<bar>p_quantity pos\<bar> = \<bar>o_quantity order\<bar>
                  then (fp - p_entry_price pos) * real_of_int (p_quantity pos) - commission
                  else (fp - p_entry_price pos) * real_of_int (o_quantity order) - commission)
            else - ((real_of_int \<bar>o_quantity order\<bar> * fp + commission) / max_leverage e))"
proof (cases "map_of (positions e) (o_symbol order)")
  case None
  with fp side lev show ?thesis
    by (simp add: update_position_from_order_def Let_def)
next
  case (Some pos)
  have tq: "\<bar>p_quantity pos\<bar> + \<bar>o_quantity order\<bar> \<noteq> 0" using q by simp
  show ?thesis
    using Some fp side lev tq
    by (auto simp add: update_position_from_order_def Let_def reduces_position_def
        signed_quantity_def close_def calculate_unrealized_pnl_def algebra_simps)
qed

text \<open>
  Claim C9, as amended. For every SELL market order of non-zero quantity, every engine
  state whose max leverage is not zero and every price mapping,
  \<^verbatim>\<open>execute_market_order\<close> performs no margin-admission check: it returns true, marks
  the order FILLED at the slippage-adjusted price \<open>p\<close>, changes the position book, and
  adds to the cash the cash effect of the fill, with \<open>c\<close> the commission on the fill:
  \<^item> with no position in the symbol, a short is opened and the cash grows by
    \<open>(|quantity| * p - c) / max_leverage\<close>;
  \<^item> against a position on the opposite side, a fill smaller than the position adds
    \<open>(p - entry) * quantity - c\<close>, a fill of the same size adds the realized P&L
    \<open>(p - entry) * position quantity\<close> less \<open>c\<close>, and a larger fill adds the same and then
    takes off the margin \<open>|remaining quantity| * p / max_leverage\<close> of the reversed leg;
  \<^item> otherwise the fill adds to the position and the cash decreases by
    \<open>(|quantity| * p + c) / max_leverage\<close>.

  The outcome does not depend on the price mapping, which the engine reads only to compute
  the available capital.
\<close>

theorem C9_sell_filled:
  assumes side: "o_side order = SELL"
    and lev: "max_leverage e \<noteq> 0"
    and q: "o_quantity order \<noteq> 0"
  shows "fst (execute_market_order e order current_price current_prices timestamp) = Inr True
       \<and> fst (snd (execute_market_order e order current_price current_prices timestamp))
           = fill order (apply_slippage e current_price SELL) timestamp
       \<and> o_status (fst (snd (execute_market_order e order current_price current_prices
                                 timestamp))) = FILLED
       \<and> positions (snd (snd (execute_market_order e order current_price current_prices
                                 timestamp))) \<noteq> positions e
       \<and> cash (snd (snd (execute_market_order e order current_price current_prices
                            timestamp))) =
           cash e +
             (case map_of (positions e) (o_symbol order) of
                None \<Rightarrow>
                  (real_of_int \<bar>o_quantity order\<bar> * apply_slippage e current_price SELL
                     - calculate_commission e (o_quantity order)
                         (apply_slippage e current_price SELL))
                  / max_leverage e
              | Some pos \<Rightarrow>
                  if reduces_position pos order
                  then (if \<bar>p_quantity pos\<bar> < \<bar>o_quantity order\<bar>
                        then (apply_slippage e current_price SELL - p_entry_price pos)
                               * real_of_int (p_quantity pos)
                             - calculate_commission e (o_quantity order)
                                 (apply_slippage e current_price SELL)
                             - real_of_int \<bar>p_quantity pos - o_quantity order\<bar>
                                 * apply_slippage e current_price SELL / max_leverage e
                        else if \<bar>p_quantity pos\<bar> = \<bar>o_quantity order\<bar>
                        then (apply_slippage e current_price SELL - p_entry_price pos)
                               * real_of_int (p_quantity pos)
                             - calculate_commission e (o_quantity order)
                                 (apply_slippage e current_price SELL)
                        else (apply_slippage e current_price SELL - p_entry_price pos)
                               * real_of_int (o_quantity order)
                             - calculate_commission e (o_quantity order)
                                 (apply_slippage e current_price SELL))
                  else - ((real_of_int \<bar>o_quantity order\<bar>
                             * apply_slippage e current_price SELL
                           + calculate_commission e (o_quantity order)
                               (apply_slippage e current_price SELL))
                          / max_leverage e))
       \<and> execute_market_order e order current_price current_prices timestamp
           = execute_market_order e order current_price Map.empty timestamp"
proof -
  let ?p = "apply_slippage e current_price SELL"
  let ?o = "fill order ?p timestamp"
  let ?c = "calculate_commission e (o_quantity order) ?p"
  let ?e1 = "e\<lparr>filled_orders := filled_orders e @ [?o]\<rparr>"
  let ?e2 = "if ?o \<in> set (pending_orders ?e1)
             then ?e1\<lparr>pending_orders := remove1 ?o (pending_orders ?e1)\<rparr> else ?e1"
  have fp: "o_fill_price ?o = Some ?p"
    by (simp add: fill_def)
  have side2: "o_side ?o = SELL" using side by (simp add: fill_def)
  have q2: "o_quantity ?o \<noteq> 0" using q by (simp add: fill_def)
  have lev2: "max_leverage ?e2 \<noteq> 0" using lev by simp
  have sq: "signed_quantity ?o \<noteq> 0" using side q by (simp add: signed_quantity_def fill_def)
  have pos2: "positions ?e2 = positions e" and cash2: "cash ?e2 = cash e"
    and lev3: "max_leverage ?e2 = max_leverage e" by simp_all
  have red: "reduces_position pos ?o = reduces_position pos order" for pos
    by (simp add: reduces_position_def signed_quantity_def fill_def)
  note upd = update_changes_book [OF fp lev2 sq, of ?c]
  note csh = update_cash_sell [OF fp side2 lev2 q2, of ?c]
  have ex: "execute_market_order e order current_price current_prices timestamp
              = (case fst (update_position_from_order ?e2 ?o ?c) of
                   Some err \<Rightarrow> (Inl err, ?o, snd (update_position_from_order ?e2 ?o ?c))
                 | None \<Rightarrow> (Inr True, ?o, snd (update_position_from_order ?e2 ?o ?c)))"
    for current_prices
    using side by (simp add: execute_market_order_def Let_def case_prod_beta)
  have st: "o_status ?o = FILLED" by (simp add: fill_def)
  have same: "o_quantity ?o = o_quantity order" "o_symbol ?o = o_symbol order"
    by (simp_all add: fill_def)
  have res: "execute_market_order e order current_price current_prices timestamp
               = (Inr True, ?o, snd (update_position_from_order ?e2 ?o ?c))"
    for current_prices
    using upd by (simp add: ex)
  have csh': "cash (snd (update_position_from_order ?e2 ?o ?c)) =
           cash e +
             (case map_of (positions e) (o_symbol order) of
                None \<Rightarrow> (real_of_int \<bar>o_quantity order\<bar> * ?p - ?c) / max_leverage e
              | Some pos \<Rightarrow>
                  if reduces_position pos order
                  then (if \<bar>p_quantity pos\<bar> < \<bar>o_quantity order\<bar>
                        then (?p - p_entry_price pos) * real_of_int (p_quantity pos) - ?c
                             - real_of_int \<bar>p_quantity pos - o_quantity order\<bar> * ?p
                                 / max_leverage e
                        else if \<bar>p_quantity pos\<bar> = \<bar>o_quantity order\<bar>
                        then (?p - p_entry_price pos) * real_of_int (p_quantity pos) - ?c
                        else (?p - p_entry_price pos) * real_of_int (o_quantity order) - ?c)
                  else - ((real_of_int \<bar>o_quantity order\<bar> * ?p + ?c) / max_leverage e))"
    using csh unfolding pos2 cash2 lev3 same red by simp
  have book: "positions (snd (update_position_from_order ?e2 ?o ?c)) \<noteq> positions e"
    using upd pos2 by simp
  show ?thesis
    unfolding res using st book csh' by simp
qed

text \<open>
  Witness for C9: a fresh engine with capital 10,000 fills a SELL of 200 units at 100,
  far above its available capital; the short enters the book and the cash becomes 30,000.
\<close>

theorem C9_sell_filled_witness:
  "o_side (market_order ''X'' SELL 200 0) = SELL
   \<and> max_leverage (init_engine 10000 1 0 0) \<noteq> 0
   \<and> o_quantity (market_order ''X'' SELL 200 0) \<noteq> 0
   \<and> fst (execute_market_order (init_engine 10000 1 0 0) (market_order ''X'' SELL 200 0)
            100 [''X'' \<mapsto> 100] 0) = Inr True
   \<and> o_status (fst (snd (execute_market_order (init_engine 10000 1 0 0)
            (market_order ''X'' SELL 200 0) 100 [''X'' \<mapsto> 100] 0))) = FILLED
   \<and> positions (snd (snd (execute_market_order (init_engine 10000 1 0 0)
            (market_order ''X'' SELL 200 0) 100 [''X'' \<mapsto> 100] 0)))
       \<noteq> positions (init_engine 10000 1 0 0)
   \<and> cash (snd (snd (execute_market_order (init_engine 10000 1 0 0)
            (market_order ''X'' SELL 200 0) 100 [''X'' \<mapsto> 100] 0))) = 30000"
proof -
  have side: "o_side (market_order ''X'' SELL 200 0) = SELL"
    by (simp add: market_order_def)
  have lev: "max_leverage (init_engine 10000 1 0 0) \<noteq> 0"
    by (simp add: init_engine_def)
  have q: "o_quantity (market_order ''X'' SELL 200 0) \<noteq> 0"
    by (simp add: market_order_def)
  note filled = C9_sell_filled [OF side lev q, of 100 "[''X'' \<mapsto> 100]" 0]
  note credited = filled [THEN conjunct2, THEN conjunct2, THEN conjunct2, THEN conjunct2,
                          THEN conjunct1]
  have ret: "fst (execute_market_order (init_engine 10000 1 0 0)
               (market_order ''X'' SELL 200 0) 100 [''X'' \<mapsto> 100] 0) = Inr True"
    using filled by blast
  have st: "o_status (fst (snd (execute_market_order (init_engine 10000 1 0 0)
               (market_order ''X'' SELL 200 0) 100 [''X'' \<mapsto> 100] 0))) = FILLED"
    using filled by blast
  have book: "positions (snd (snd (execute_market_order (init_engine 10000 1 0 0)
               (market_order ''X'' SELL 200 0) 100 [''X'' \<mapsto> 100] 0)))
                \<noteq> positions (init_engine 10000 1 0 0)"
    using filled by blast
  have csh: "cash (snd (snd (execute_market_order (init_engine 10000 1 0 0)
               (market_order ''X'' SELL 200 0) 100 [''X'' \<mapsto> 100] 0))) = 30000"
    unfolding credited
    by (simp add: init_engine_def market_order_def apply_slippage_def
        calculate_commission_def)
  show ?thesis
    using side lev q ret st book csh by blast
qed

text \<open>
  Counterexamples to C9 as stated (for every engine state and every SELL order, the book
  and the cash are mutated).
  \<^item> With max leverage 0 the SELL of one unit into an empty book does not return true.
    The order is marked FILLED and the short position enters the book, then crediting the
    proceeds divides by the max leverage and raises ZeroDivisionError.
  \<^item> With max leverage 1, a SELL of quantity 0 against the long position of 10 units at
    100 returns true and leaves both the position book and the cash as they were.
  \<^item> With max leverage 1 and no commission, the SELL of 10 units at 100 against the long
    position of 10 units at 100 returns true and empties the book, and the cash stays
    where it was: the realized P&L less the commission is zero.
\<close>

theorem C9_sell_not_as_claimed:
  "fst (execute_market_order (init_engine 10000 0 0 0) (market_order ''X'' SELL 1 0)
          100 Map.empty 0) = Inl ZeroDivisionError
   \<and> fst (execute_market_order (init_engine 10000 0 0 0) (market_order ''X'' SELL 1 0)
          100 Map.empty 0) \<noteq> Inr True
   \<and> o_status (fst (snd (execute_market_order (init_engine 10000 0 0 0)
          (market_order ''X'' SELL 1 0) 100 Map.empty 0))) = FILLED
   \<and> map (p_quantity \<circ> snd) (positions (snd (snd (execute_market_order
          (init_engine 10000 0 0 0) (market_order ''X'' SELL 1 0) 100 Map.empty 0)))) = [- 1]
   \<and> max_leverage scenario_after_buy = 1
   \<and> fst (execute_market_order scenario_after_buy (market_order ''X'' SELL 0 1)
            100 [''X'' \<mapsto> 100] 1) = Inr True
   \<and> positions (snd (snd (execute_market_order scenario_after_buy
            (market_order ''X'' SELL 0 1) 100 [''X'' \<mapsto> 100] 1)))
       = positions scenario_after_buy
   \<and> cash (snd (snd (execute_market_order scenario_after_buy
            (market_order ''X'' SELL 0 1) 100 [''X'' \<mapsto> 100] 1)))
       = cash scenario_after_buy
   \<and> fst (execute_market_order scenario_after_buy (market_order ''X'' SELL 10 1)
            100 [''X'' \<mapsto> 100] 1) = Inr True
   \<and> positions (snd (snd (execute_market_order scenario_after_buy
            (market_order ''X'' SELL 10 1) 100 [''X'' \<mapsto> 100] 1))) = []
   \<and> cash (snd (snd (execute_market_order scenario_after_buy
            (market_order ''X'' SELL 10 1) 100 [''X'' \<mapsto> 100] 1)))
       = cash scenario_after_buy"
  unfolding scenario_after_buy_eq
  by (simp add: engine_defs Let_def)

subsection \<open>C7: maximum drawdown\<close>

lemma loop_ge_start:
  "max_dd_dollars \<le> fst (max_drawdown_loop history max_dd_dollars max_dd_pct peak)"
proof (induction history arbitrary: max_dd_dollars max_dd_pct peak)
  case Nil
  show ?case by simp
next
  case (Cons x history)
  obtain timestamp equity where x: "x = (timestamp, equity)" by (cases x)
  show ?case
    unfolding x
    by (auto simp: Let_def intro: order_trans [OF _ Cons.IH] less_imp_le)
qed

lemma loop_pct_le_100:
  assumes "list_all (\<lambda>(timestamp, equity). 0 \<le> equity) history" and "max_dd_pct \<le> 100"
  shows "snd (max_drawdown_loop history max_dd_dollars max_dd_pct peak) \<le> 100"
  using assms
proof (induction history arbitrary: max_dd_dollars max_dd_pct peak)
  case Nil
  then show ?case by simp
next
  case (Cons x history)
  obtain timestamp equity where x: "x = (timestamp, equity)" by (cases x)
  have eq: "0 \<le> equity" and rest: "list_all (\<lambda>(timestamp, equity). 0 \<le> equity) history"
    using Cons.prems(1) by (simp_all add: x)
  have pct: "(if p > 0 then (p - equity) / p * 100 else 0) \<le> 100" for p :: real
    using eq by (simp add: divide_le_eq)
  show ?case
    unfolding x
    using Cons.IH [OF rest pct] Cons.IH [OF rest Cons.prems(2)]
    by (simp add: Let_def)
qed

lemma loop_prefix_mono:
  "fst (max_drawdown_loop xs max_dd_dollars max_dd_pct peak)
     \<le> fst (max_drawdown_loop (xs @ ys) max_dd_dollars max_dd_pct peak)"
proof (induction xs arbitrary: max_dd_dollars max_dd_pct peak)
  case Nil
  show ?case by (simp add: loop_ge_start)
next
  case (Cons x xs)
  obtain timestamp equity where x: "x = (timestamp, equity)" by (cases x)
  show ?case unfolding x by (simp add: Let_def Cons.IH)
qed

lemma get_max_drawdown_prefix:
  "fst (get_max_drawdown (tr\<lparr>equity_history := xs\<rparr>) e)
     \<le> fst (get_max_drawdown (tr\<lparr>equity_history := xs @ ys\<rparr>) e)"
proof (cases xs)
  case Nil
  then show ?thesis by (simp add: get_max_drawdown_def loop_ge_start)
next
  case (Cons x xs')
  then show ?thesis
    using loop_prefix_mono [of xs 0 0 "initial_capital e" ys]
    by (simp add: get_max_drawdown_def)
qed

text \<open>
  Claim C7. For every equity history whose equity values are all non-negative,
  \<^verbatim>\<open>get_max_drawdown\<close> returns a dollar drawdown that is at least 0 and a percentage
  drawdown that is at most 100; and the dollar max drawdown over a prefix of the history
  is at most the one over any longer prefix.
\<close>

theorem C7_max_drawdown:
  assumes "list_all (\<lambda>(timestamp, equity). 0 \<le> equity) (equity_history tr)"
  shows "0 \<le> fst (get_max_drawdown tr e)
       \<and> snd (get_max_drawdown tr e) \<le> 100
       \<and> (\<forall>m n. m \<le> n \<longrightarrow>
             fst (get_max_drawdown (tr\<lparr>equity_history := take m (equity_history tr)\<rparr>) e)
               \<le> fst (get_max_drawdown (tr\<lparr>equity_history := take n (equity_history tr)\<rparr>) e))"
proof -
  have dollars: "0 \<le> fst (get_max_drawdown tr e)"
    by (simp add: get_max_drawdown_def loop_ge_start)
  have pct: "snd (get_max_drawdown tr e) \<le> 100"
    using loop_pct_le_100 [OF assms, of 0 0 "initial_capital e"]
    by (simp add: get_max_drawdown_def)
  have mono: "fst (get_max_drawdown (tr\<lparr>equity_history := take m (equity_history tr)\<rparr>) e)
                \<le> fst (get_max_drawdown (tr\<lparr>equity_history := take n (equity_history tr)\<rparr>) e)"
    if "m \<le> n" for m n
  proof -
    have "take n (equity_history tr)
            = take m (equity_history tr) @ take (n - m) (drop m (equity_history tr))"
      using that by (metis le_add_diff_inverse take_add)
    then show ?thesis
      using get_max_drawdown_prefix [where tr = tr and xs = "take m (equity_history tr)" and e = e] by simp
  qed
  show ?thesis using dollars pct mono by blast
qed

text \<open>
  Witness for C7: on the samples 10,000, 9,000, 9,500 with initial capital 10,000 the
  maximum drawdown is 1,000 dollars, 10 percent, and it is 0 on the first sample alone.
\<close>

theorem C7_max_drawdown_witness:
  "list_all (\<lambda>(timestamp, equity). 0 \<le> equity) (equity_history sample_tracker)
   \<and> 0 \<le> fst (get_max_drawdown sample_tracker (init_engine 10000 1 0 0))
   \<and> snd (get_max_drawdown sample_tracker (init_engine 10000 1 0 0)) \<le> 100
   \<and> get_max_drawdown sample_tracker (init_engine 10000 1 0 0) = (1000, 10)
   \<and> fst (get_max_drawdown
            (sample_tracker\<lparr>equity_history := take 1 (equity_history sample_tracker)\<rparr>)
            (init_engine 10000 1 0 0))
       \<le> fst (get_max_drawdown
            (sample_tracker\<lparr>equity_history := take 2 (equity_history sample_tracker)\<rparr>)
            (init_engine 10000 1 0 0))"
proof -
  have nonneg: "list_all (\<lambda>(timestamp, equity). 0 \<le> equity) (equity_history sample_tracker)"
    by (simp add: sample_tracker_def)
  note dd = C7_max_drawdown [OF nonneg, of "init_engine 10000 1 0 0"]
  have val: "get_max_drawdown sample_tracker (init_engine 10000 1 0 0) = (1000, 10)"
    by (simp add: get_max_drawdown_def sample_tracker_def init_engine_def Let_def)
  have "(1::nat) \<le> 2" by simp
  with dd have step:
    "fst (get_max_drawdown
            (sample_tracker\<lparr>equity_history := take 1 (equity_history sample_tracker)\<rparr>)
            (init_engine 10000 1 0 0))
       \<le> fst (get_max_drawdown
            (sample_tracker\<lparr>equity_history := take 2 (equity_history sample_tracker)\<rparr>)
            (init_engine 10000 1 0 0))"
    by blast
  show ?thesis using nonneg dd val step by blast
qed

section \<open>Properties of the strategies\<close>

subsection \<open>C8: HOLD on short histories and undefined indicators\<close>




lemma length_rolling_mean [simp]: "length (rolling_mean xs w) = length xs"
  by (simp add: rolling_mean_def)

lemma length_series_diff [simp]: "length (series_diff xs) = length xs"
  by (cases xs) (simp_all add: series_diff_def)


lemma length_ewm_loop [simp]: "length (ewm_loop alpha y xs) = length xs"
  by (induction xs arbitrary: y) (simp_all add: Let_def)

































subsection \<open>C6: the adaptive selector\<close>

text \<open>
  Claim C6, as amended. \<^verbatim>\<open>generate_signal\<close> runs the regime analysis and selects a
  strategy only when the selector holds none (its first call): it stores the selected
  strategy and routes the call to it. When the selector holds a strategy, every call, on
  any bar history, leaves the selector unchanged and routes to that strategy. So after
  one call the selector holds a strategy, and that strategy produces the signal of every
  later call, whatever the market regime.
\<close>

theorem C6_strategy_retained:
  "(current_strategy sel = None \<longrightarrow>
      adaptive_generate_signal sel data symbol current_position
        = (sel\<lparr>current_strategy := Some (fst (snd (select_strategy sel data)))\<rparr>,
           strategy_generate_signal (fst (snd (select_strategy sel data)))
             data symbol current_position))
   \<and> (\<forall>st. current_strategy sel = Some st \<longrightarrow>
        (\<forall>data' symbol' position'.
           adaptive_generate_signal sel data' symbol' position'
             = (sel, strategy_generate_signal st data' symbol' position')))
   \<and> (\<exists>st. current_strategy (fst (adaptive_generate_signal sel data symbol current_position))
               = Some st
           \<and> (\<forall>data' symbol' position'.
                 adaptive_generate_signal
                   (fst (adaptive_generate_signal sel data symbol current_position))
                   data' symbol' position'
                 = (fst (adaptive_generate_signal sel data symbol current_position),
                    strategy_generate_signal st data' symbol' position')))"
proof -
  have sel_some: "current_strategy (fst (select_strategy s d))
                    = Some (fst (snd (select_strategy s d)))" for s d
    by (simp add: select_strategy_def Let_def case_prod_beta)
  have sel_fst: "fst (select_strategy s d)
                   = s\<lparr>current_strategy := Some (fst (snd (select_strategy s d)))\<rparr>" for s d
    by (simp add: select_strategy_def Let_def case_prod_beta)
  have cached: "adaptive_generate_signal s d y p = (s, strategy_generate_signal st d y p)"
    if "current_strategy s = Some st" for s st d y p
    using that by (simp add: adaptive_generate_signal_def Let_def)
  have fresh: "adaptive_generate_signal sel data symbol current_position
        = (sel\<lparr>current_strategy := Some (fst (snd (select_strategy sel data)))\<rparr>,
           strategy_generate_signal (fst (snd (select_strategy sel data)))
             data symbol current_position)"
    if "current_strategy sel = None"
    using that sel_some [of sel data] sel_fst [of sel data]
    by (simp add: adaptive_generate_signal_def Let_def)
  have after: "\<exists>st. current_strategy
                        (fst (adaptive_generate_signal sel data symbol current_position))
                      = Some st"
  proof (cases "current_strategy sel")
    case None
    then show ?thesis by (simp add: fresh)
  next
    case (Some st)
    then show ?thesis by (simp add: cached)
  qed
  show ?thesis using fresh cached after by blast
qed

lemma adx_flat: "calculate_adx (map b_high flat_bars) (map b_low flat_bars)
                   (map b_close flat_bars) 14 = 0"
  by (simp add: flat_bars_def bars_of_closes_def calculate_adx_def last_n_def np_diff_def
      np_mean_def Let_def)

lemma adx_rising: "20 \<le> calculate_adx (map b_high rising_bars) (map b_low rising_bars)
                   (map b_close rising_bars) 14"
  by (simp add: rising_bars_def bars_of_closes_def calculate_adx_def last_n_def np_diff_def
      np_mean_def Let_def)

lemma select_flat:
  "fst (snd (select_strategy init_selector flat_bars)) = Stochastic stochastic_14_3"
  using adx_flat
  by (simp add: select_strategy_def get_market_conditions_def Let_def stochastic_14_3_def)

lemma trend_rising: "detect_trend (regime_analyzer init_selector) (map b_close rising_bars) = SIDEWAYS"
  by (simp add: detect_trend_def init_selector_def rising_bars_def bars_of_closes_def)

lemma select_rising:
  "fst (snd (select_strategy init_selector rising_bars)) \<noteq> Stochastic stochastic_14_3"
  using adx_rising trend_rising
  by (simp add: select_strategy_def get_market_conditions_def Let_def)

text \<open>
  Witness for C6: a fresh selector holds no strategy; on 15 flat bars (ADX 0, a sideways
  market) it selects Stochastic (14, 3), stores it and returns its signal.
\<close>

theorem C6_strategy_retained_witness:
  "current_strategy init_selector = None
   \<and> adaptive_generate_signal init_selector flat_bars ''X'' (Some 0)
       = (init_selector\<lparr>current_strategy := Some (Stochastic stochastic_14_3)\<rparr>,
          stochastic_generate_signal stochastic_14_3 flat_bars ''X'' (Some 0))"
proof -
  have none: "current_strategy init_selector = None" by (simp add: init_selector_def)
  from C6_strategy_retained [of init_selector flat_bars "''X''" "Some 0"] none
  have "adaptive_generate_signal init_selector flat_bars ''X'' (Some 0)
        = (init_selector\<lparr>current_strategy :=
             Some (fst (snd (select_strategy init_selector flat_bars)))\<rparr>,
           strategy_generate_signal (fst (snd (select_strategy init_selector flat_bars)))
             flat_bars ''X'' (Some 0))"
    by blast
  then show ?thesis using none by (simp add: select_flat)
qed

text \<open>
  Counterexample to C6 as stated (each call re-runs the analysis, and a change of regime
  between two calls can change the strategy): after the call on the flat bars, a call on
  15 steadily rising bars, for which a fresh analysis selects another strategy than
  Stochastic (the ADX is above 20), is still answered by Stochastic (14, 3), and the
  selector is unchanged.
\<close>

theorem C6_regime_change_keeps_strategy:
  "fst (snd (select_strategy init_selector flat_bars)) = Stochastic stochastic_14_3
   \<and> fst (snd (select_strategy init_selector rising_bars)) \<noteq> Stochastic stochastic_14_3
   \<and> adaptive_generate_signal
         (fst (adaptive_generate_signal init_selector flat_bars ''X'' (Some 0)))
         rising_bars ''X'' (Some 0)
       = (init_selector\<lparr>current_strategy := Some (Stochastic stochastic_14_3)\<rparr>,
          stochastic_generate_signal stochastic_14_3 rising_bars ''X'' (Some 0))"
proof -
  have first: "fst (adaptive_generate_signal init_selector flat_bars ''X'' (Some 0))
                 = init_selector\<lparr>current_strategy := Some (Stochastic stochastic_14_3)\<rparr>"
    using select_flat
    by (simp add: adaptive_generate_signal_def select_strategy_def Let_def init_selector_def
        case_prod_beta)
  show ?thesis
    unfolding first using select_flat select_rising
    by (simp add: adaptive_generate_signal_def Let_def)
qed

end
